theory Spec2Isabelle
  imports Main "HOL-Library.Char_ord" "HOL-Library.List_Lexorder" "HOL-Library.AList"
begin

section \<open>Scheduling and availability engine of the clinic back office\<close>

text \<open>
  The development embeds the appointment handlers of
  \<^verbatim>\<open>src/controllers/appointmentController.js\<close> and the schedule handler of
  \<^verbatim>\<open>src/controllers/doctorController.js\<close>. Each handler is an \<^verbatim>\<open>async\<close> Express
  function whose body is one \<^verbatim>\<open>try\<close> block; here it is a function from the request and the
  tables to the response (and, for the writing handlers, the table afterwards).
\<close>

subsection \<open>Values, items and requests\<close>

text \<open>
  Attribute values are the scalars a JSON body can carry. \<^verbatim>\<open>undefined\<close> is the absence of
  a value: \<open>None\<close> in a \<open>jsval option\<close>. Numbers are integers here; nested objects and
  arrays are not modelled.
\<close>

datatype jsval = JNull | JBool bool | JNum int | JStr string

text \<open>JavaScript truthiness, as used by \<^verbatim>\<open>!x\<close>, \<^verbatim>\<open>if (x)\<close> and \<^verbatim>\<open>x || y\<close>.\<close>

fun truthy :: "jsval option \<Rightarrow> bool" where
  "truthy None = False"
| "truthy (Some JNull) = False"
| "truthy (Some (JBool b)) = b"
| "truthy (Some (JNum n)) = (n \<noteq> 0)"
| "truthy (Some (JStr s)) = (s \<noteq> [])"

definition orElse :: "jsval option \<Rightarrow> jsval option \<Rightarrow> jsval option" where
  "orElse a b = (if truthy a then a else b)"

text \<open>
  An item of a table and a request body are objects: association lists from property names
  to values, read with \<open>map_of\<close>. The source's parameter \<^verbatim>\<open>id\<close> is written \<open>ident\<close>.
\<close>

type_synonym item = "(string \<times> jsval) list"

text \<open>The four responses a handler can give other than success, with their HTTP status.\<close>

datatype error = ValidationError | NotFoundError | ConflictError | StoreError

fun httpStatus :: "error \<Rightarrow> nat" where
  "httpStatus ValidationError = 400"
| "httpStatus NotFoundError = 404"
| "httpStatus ConflictError = 409"
| "httpStatus StoreError = 500"

subsection \<open>The document store\<close>

text \<open>
  The handlers reach the tables only through \<^verbatim>\<open>ddbDocClient.send(command)\<close>. A table is the
  list of its items, one for each key; a query returns all the matching items, in table
  order, and reads see every earlier write. \<^verbatim>\<open>send\<close> can throw
  (the service is down, the request is rejected): \<open>accepts\<close> says which requests are
  answered, and a request that is not answered takes the handler to its \<^verbatim>\<open>catch\<close> block,
  the 500 response \<open>StoreError\<close>. The remaining fields are the other ambient inputs of a
  handler: the formatting flag \<open>midnight24\<close> explained below, the identifier \<^verbatim>\<open>uuidv4()\<close>
  returns, and the successive readings of \<^verbatim>\<open>new Date().toISOString()\<close>.
\<close>

record updateCommand =
  Key :: string
  UpdateExpression :: "(string \<times> string) list"
  ExpressionAttributeNames :: "(string \<times> string) list"
  ExpressionAttributeValues :: "(string \<times> jsval) list"

datatype request =
    Get string string
  | Query string "jsval list"
  | Put string item
  | Update string updateCommand

record env =
  accepts :: "request \<Rightarrow> bool"
  midnight24 :: bool
  uuidv4 :: string
  now :: "nat \<Rightarrow> string"

text \<open>\<^verbatim>\<open>GetCommand\<close> on \<^verbatim>\<open>Appointments\<close>: the item whose key \<^verbatim>\<open>appointmentId\<close> is \<open>ident\<close>.\<close>

definition ddbGet :: "item list \<Rightarrow> string \<Rightarrow> item option" where
  "ddbGet tbl ident = find (\<lambda>it. map_of it ''appointmentId'' = Some (JStr ident)) tbl"

text \<open>\<^verbatim>\<open>PutCommand\<close>: the item replaces the one with the same key, or is added.\<close>

definition ddbPut :: "item list \<Rightarrow> item \<Rightarrow> item list" where
  "ddbPut tbl new =
     (if \<exists>it \<in> set tbl. map_of it ''appointmentId'' = map_of new ''appointmentId''
      then map (\<lambda>it. if map_of it ''appointmentId'' = map_of new ''appointmentId''
                      then new else it) tbl
      else tbl @ [new])"

text \<open>
  \<^verbatim>\<open>UpdateCommand\<close> with a \<^verbatim>\<open>set\<close> expression, given as the list of its assignments
  \<^verbatim>\<open>path = :value\<close>. A path is an attribute name or a \<^verbatim>\<open>#placeholder\<close> resolved through
  \<^verbatim>\<open>ExpressionAttributeNames\<close>. The service rejects the request when that map is empty,
  when a placeholder or a value is not bound, or when two assignments write the same
  attribute (overlapping document paths). Otherwise it writes the attributes into the item
  with that key, creating the item when there is none, and returns the item as written
  (\<^verbatim>\<open>ReturnValues: 'ALL_NEW'\<close>).
\<close>

definition resolvePath :: "(string \<times> string) list \<Rightarrow> string \<Rightarrow> string option" where
  "resolvePath names p =
     (case p of
        [] \<Rightarrow> None
      | c # _ \<Rightarrow> if c = CHR ''#'' then map_of names p else Some p)"

fun resolveSets ::
  "(string \<times> string) list \<Rightarrow> (string \<times> jsval) list \<Rightarrow> (string \<times> string) list \<Rightarrow>
   (string \<times> jsval) list option"
where
  "resolveSets names vals [] = Some []"
| "resolveSets names vals ((p, v) # rest) =
     (case (resolvePath names p, map_of vals v, resolveSets names vals rest) of
        (Some a, Some x, Some r) \<Rightarrow> Some ((a, x) # r)
      | _ \<Rightarrow> None)"

definition setAttrs :: "(string \<times> jsval) list \<Rightarrow> item \<Rightarrow> item" where
  "setAttrs sets it = foldl (\<lambda>acc (k, v). AList.update k v acc) it sets"

definition ddbUpdate :: "item list \<Rightarrow> updateCommand \<Rightarrow> error + (item \<times> item list)" where
  "ddbUpdate tbl cmd =
     (if ExpressionAttributeNames cmd = [] then Inl StoreError
      else case resolveSets (ExpressionAttributeNames cmd) (ExpressionAttributeValues cmd)
                  (UpdateExpression cmd) of
        None \<Rightarrow> Inl StoreError
      | Some sets \<Rightarrow>
          if \<not> distinct (map fst sets) then Inl StoreError
          else (case ddbGet tbl (Key cmd) of
                  None \<Rightarrow>
                    (let new = setAttrs sets [(''appointmentId'', JStr (Key cmd))]
                     in Inr (new, tbl @ [new]))
                | Some old \<Rightarrow>
                    Inr (setAttrs sets old,
                         map (\<lambda>it. if map_of it ''appointmentId'' = Some (JStr (Key cmd))
                                    then setAttrs sets it else it) tbl)))"

subsection \<open>Time of day\<close>

text \<open>
  A \<^verbatim>\<open>Date\<close> built from \<^verbatim>\<open>`${date}T${time}`\<close> is local time; two such dates on the same day
  differ only in their minutes since local midnight, which is what the model keeps. The
  string must be the ISO shape \<^verbatim>\<open>YYYY-MM-DDTHH:MM\<close>; anything else is an Invalid Date
  (\<open>None\<close>), every comparison with which is false. Longer ISO forms (seconds, offsets) and
  the fallback parsers of JavaScript engines for other shapes are not modelled, nor are
  daylight-saving transitions (the specification assumes a single implicit zone).
\<close>

definition isDigit :: "char \<Rightarrow> bool" where
  "isDigit c = (c \<in> set ''0123456789'')"

definition digitVal :: "char \<Rightarrow> nat" where
  "digitVal c = of_char c - 48"

fun parseHHMM :: "string \<Rightarrow> nat option" where
  "parseHHMM [a, b, c, d, e] =
     (if isDigit a \<and> isDigit b \<and> c = CHR '':'' \<and> isDigit d \<and> isDigit e then
        (let h = 10 * digitVal a + digitVal b; m = 10 * digitVal d + digitVal e
         in if h < 24 \<and> m < 60 then Some (60 * h + m) else None)
      else None)"
| "parseHHMM _ = None"

fun validDate :: "string \<Rightarrow> bool" where
  "validDate [y1, y2, y3, y4, s1, m1, m2, s2, d1, d2] =
     (isDigit y1 \<and> isDigit y2 \<and> isDigit y3 \<and> isDigit y4 \<and> s1 = CHR ''-'' \<and>
      isDigit m1 \<and> isDigit m2 \<and> s2 = CHR ''-'' \<and> isDigit d1 \<and> isDigit d2 \<and>
      (let m = 10 * digitVal m1 + digitVal m2; d = 10 * digitVal d1 + digitVal d2
       in 1 \<le> m \<and> m \<le> 12 \<and> 1 \<le> d \<and> d \<le> 31))"
| "validDate _ = False"

definition newDate :: "string \<Rightarrow> string \<Rightarrow> int option" where
  "newDate date time = (if validDate date then map_option int (parseHHMM time) else None)"

text \<open>
  \<^verbatim>\<open>toLocaleTimeString('en-US', {hour12: false, hour: '2-digit', minute: '2-digit'})\<close>
  prints \<^verbatim>\<open>HH:MM\<close>. Engines differ on the hour after midnight (\<^verbatim>\<open>00\<close> or \<^verbatim>\<open>24\<close>); the flag
  \<open>h24\<close> selects the second behaviour, and every result below holds for both.
\<close>

definition twoDigit :: "nat \<Rightarrow> string" where
  "twoDigit n = [''0123456789'' ! (n div 10 mod 10), ''0123456789'' ! (n mod 10)]"

definition toLocaleTimeString :: "bool \<Rightarrow> int \<Rightarrow> string" where
  "toLocaleTimeString h24 t =
     (let m = nat (t mod 1440); h = m div 60
      in twoDigit (if h = 0 \<and> h24 then 24 else h) @ '':'' @ twoDigit (m mod 60))"

subsection \<open>Availability calculator\<close>

text \<open>
  Lines 398 to 419 of \<^verbatim>\<open>getAvailableSlots\<close>. The \<^verbatim>\<open>while\<close> loop advances \<^verbatim>\<open>startTime\<close> by
  \<^verbatim>\<open>slotDuration\<close> minutes; nothing in the handler makes the step positive, so the loop is
  a partial function and \<open>None\<close> is an execution that never leaves it.
\<close>

record workingHours =
  wh_start :: string
  wh_end :: string

partial_function (option) slotLoop ::
  "bool \<Rightarrow> jsval option list \<Rightarrow> int \<Rightarrow> int \<Rightarrow> int \<Rightarrow> string list \<Rightarrow> string list option"
where
  "slotLoop h24 bookedSlots slotDuration endTime startTime availableSlots =
     (if startTime < endTime then
        slotLoop h24 bookedSlots slotDuration endTime (startTime + slotDuration)
          (if Some (JStr (toLocaleTimeString h24 startTime)) \<in> set bookedSlots
           then availableSlots
           else availableSlots @ [toLocaleTimeString h24 startTime])
      else Some availableSlots)"

text \<open>\<^verbatim>\<open>doctorData.Item.slotDuration || 30\<close>: an absent or zero duration becomes 30.\<close>

definition effectiveSlotDuration :: "int option \<Rightarrow> int" where
  "effectiveSlotDuration a = (case a of None \<Rightarrow> 30 | Some n \<Rightarrow> if n = 0 then 30 else n)"

definition computeAvailableSlots ::
  "bool \<Rightarrow> workingHours \<Rightarrow> int option \<Rightarrow> jsval option list \<Rightarrow> string \<Rightarrow> string list option"
where
  "computeAvailableSlots h24 wh slotDurationAttr bookedSlots date =
     (case (newDate date (wh_start wh), newDate date (wh_end wh)) of
        (Some startTime, Some endTime) \<Rightarrow>
          slotLoop h24 bookedSlots (effectiveSlotDuration slotDurationAttr) endTime startTime []
      | _ \<Rightarrow> Some [])"

subsection \<open>Conflict detector\<close>

text \<open>
  The query both writing handlers send to the index \<^verbatim>\<open>DoctorScheduleIndex\<close> before they
  write: key condition \<^verbatim>\<open>doctorId = :doctorId AND appointmentDate = :appointmentDate\<close>,
  filter \<^verbatim>\<open>appointmentTime = :appointmentTime\<close>, to which \<^verbatim>\<open>updateAppointment\<close> adds
  \<^verbatim>\<open>AND appointmentId <> :currentId\<close>. \<open>currentId\<close> is \<open>None\<close> for the query of
  \<^verbatim>\<open>createAppointment\<close>. The test on the answer is
  \<^verbatim>\<open>conflictCheck.Items && conflictCheck.Items.length > 0\<close>.
\<close>

definition conflictItems ::
  "item list \<Rightarrow> jsval \<Rightarrow> jsval \<Rightarrow> jsval \<Rightarrow> string option \<Rightarrow> item list"
where
  "conflictItems tbl doctorId appointmentDate appointmentTime currentId =
     filter (\<lambda>it. map_of it ''doctorId'' = Some doctorId \<and>
                   map_of it ''appointmentDate'' = Some appointmentDate \<and>
                   map_of it ''appointmentTime'' = Some appointmentTime \<and>
                   (case currentId of
                      None \<Rightarrow> True
                    | Some ident \<Rightarrow> map_of it ''appointmentId'' \<noteq> Some (JStr ident))) tbl"

definition hasConflict ::
  "item list \<Rightarrow> jsval \<Rightarrow> jsval \<Rightarrow> jsval \<Rightarrow> string option \<Rightarrow> bool"
where
  "hasConflict tbl doctorId appointmentDate appointmentTime currentId =
     (conflictItems tbl doctorId appointmentDate appointmentTime currentId \<noteq> [])"

subsection \<open>Appointment lifecycle\<close>

text \<open>
  A writing handler returns its response and the table \<^verbatim>\<open>Appointments\<close> as it leaves it.
  A property of the new appointment whose value is \<^verbatim>\<open>undefined\<close> gives no attribute;
  whether the document client takes an object with such a property is, like every other
  reason for a request to be rejected, left to \<open>accepts\<close>.
\<close>

definition optAttr :: "string \<Rightarrow> jsval option \<Rightarrow> item" where
  "optAttr k v = (case v of None \<Rightarrow> [] | Some x \<Rightarrow> [(k, x)])"

definition newAppointment :: "env \<Rightarrow> item \<Rightarrow> item" where
  "newAppointment env body =
     [(''appointmentId'', JStr (uuidv4 env))] @
     optAttr ''patientId'' (map_of body ''patientId'') @
     optAttr ''doctorId'' (map_of body ''doctorId'') @
     optAttr ''appointmentDate'' (map_of body ''appointmentDate'') @
     optAttr ''appointmentTime'' (map_of body ''appointmentTime'') @
     optAttr ''appointmentType'' (map_of body ''appointmentType'') @
     optAttr ''notes'' (map_of body ''notes'') @
     [(''status'', JStr ''scheduled''),
      (''createdAt'', JStr (now env 0)),
      (''updatedAt'', JStr (now env 1))]"

definition createAppointment :: "env \<Rightarrow> item \<Rightarrow> item list \<Rightarrow> (error + item) \<times> item list" where
  "createAppointment env body tbl =
     (if \<not> truthy (map_of body ''patientId'') \<or> \<not> truthy (map_of body ''doctorId'') \<or>
         \<not> truthy (map_of body ''appointmentDate'') \<or>
         \<not> truthy (map_of body ''appointmentTime'')
      then (Inl ValidationError, tbl)
      else case (map_of body ''doctorId'', map_of body ''appointmentDate'',
                 map_of body ''appointmentTime'') of
        (Some doctorId, Some appointmentDate, Some appointmentTime) \<Rightarrow>
          if \<not> accepts env (Query ''Appointments'' [doctorId, appointmentDate, appointmentTime])
          then (Inl StoreError, tbl)
          else if hasConflict tbl doctorId appointmentDate appointmentTime None
          then (Inl ConflictError, tbl)
          else if \<not> accepts env (Put ''Appointments'' (newAppointment env body))
          then (Inl StoreError, tbl)
          else (Inr (newAppointment env body), ddbPut tbl (newAppointment env body))
      | _ \<Rightarrow> (Inl StoreError, tbl))"

text \<open>
  The conflict check of \<^verbatim>\<open>updateAppointment\<close> (lines 206 to 229), run only when the payload
  has a truthy \<^verbatim>\<open>appointmentDate\<close> or \<^verbatim>\<open>appointmentTime\<close>. A bound value that is
  \<^verbatim>\<open>undefined\<close> cannot be sent: the request throws.
\<close>

definition updateConflictCheck ::
  "env \<Rightarrow> string \<Rightarrow> item \<Rightarrow> item \<Rightarrow> item list \<Rightarrow> error + bool"
where
  "updateConflictCheck env ident updates existing tbl =
     (if truthy (map_of updates ''appointmentDate'') \<or> truthy (map_of updates ''appointmentTime'')
      then
        (case (orElse (map_of updates ''doctorId'') (map_of existing ''doctorId''),
               orElse (map_of updates ''appointmentDate'') (map_of existing ''appointmentDate''),
               orElse (map_of updates ''appointmentTime'') (map_of existing ''appointmentTime''))
         of
           (Some doctorId, Some appointmentDate, Some appointmentTime) \<Rightarrow>
             if accepts env
                  (Query ''Appointments'' [doctorId, appointmentDate, appointmentTime, JStr ident])
             then Inr (hasConflict tbl doctorId appointmentDate appointmentTime (Some ident))
             else Inl StoreError
         | _ \<Rightarrow> Inl StoreError)
      else Inr False)"

text \<open>
  Lines 231 to 253: the update expression starts as \<^verbatim>\<open>set updatedAt = :updatedAt\<close> and gets
  one assignment \<^verbatim>\<open>#key = :key\<close> for every key of the payload other than
  \<^verbatim>\<open>appointmentId\<close> and \<^verbatim>\<open>createdAt\<close>.
\<close>

definition buildUpdate :: "env \<Rightarrow> string \<Rightarrow> item \<Rightarrow> updateCommand" where
  "buildUpdate env ident updates =
     (let kept = filter (\<lambda>(key, v). key \<noteq> ''appointmentId'' \<and> key \<noteq> ''createdAt'') updates
      in \<lparr> Key = ident,
           UpdateExpression =
             (''updatedAt'', '':updatedAt'') #
             map (\<lambda>(key, v). (CHR ''#'' # key, CHR '':'' # key)) kept,
           ExpressionAttributeNames =
             foldl (\<lambda>m (key, v). AList.update (CHR ''#'' # key) key m) [] kept,
           ExpressionAttributeValues =
             foldl (\<lambda>m (key, v). AList.update (CHR '':'' # key) v m)
               [('':updatedAt'', JStr (now env 0))] kept \<rparr>)"

text \<open>Sending an \<^verbatim>\<open>UpdateCommand\<close> and answering with \<^verbatim>\<open>data.Attributes\<close>.\<close>

definition sendUpdate :: "env \<Rightarrow> item list \<Rightarrow> updateCommand \<Rightarrow> (error + item) \<times> item list" where
  "sendUpdate env tbl command =
     (if \<not> accepts env (Update ''Appointments'' command) then (Inl StoreError, tbl)
      else case ddbUpdate tbl command of
        Inl e \<Rightarrow> (Inl e, tbl)
      | Inr (attributes, tbl') \<Rightarrow> (Inr attributes, tbl'))"

definition updateAppointment ::
  "env \<Rightarrow> string \<Rightarrow> item \<Rightarrow> item list \<Rightarrow> (error + item) \<times> item list"
where
  "updateAppointment env ident updates tbl =
     (if \<not> accepts env (Get ''Appointments'' ident) then (Inl StoreError, tbl)
      else case ddbGet tbl ident of
        None \<Rightarrow> (Inl NotFoundError, tbl)
      | Some existing \<Rightarrow>
          (case updateConflictCheck env ident updates existing tbl of
             Inl e \<Rightarrow> (Inl e, tbl)
           | Inr True \<Rightarrow> (Inl ConflictError, tbl)
           | Inr False \<Rightarrow> sendUpdate env tbl (buildUpdate env ident updates)))"

text \<open>
  \<^verbatim>\<open>cancelAppointment\<close> sends its update at once: there is no read of the item before it.
\<close>

definition cancelCommand :: "env \<Rightarrow> string \<Rightarrow> item \<Rightarrow> updateCommand" where
  "cancelCommand env ident body =
     \<lparr> Key = ident,
       UpdateExpression =
         [(''#status'', '':status''),
          (''cancellationReason'', '':reason''),
          (''updatedAt'', '':updatedAt'')],
       ExpressionAttributeNames = [(''#status'', ''status'')],
       ExpressionAttributeValues =
         [('':status'', JStr ''cancelled''),
          ('':reason'',
             (case orElse (map_of body ''cancellationReason'')
                     (Some (JStr ''No reason provided'')) of
                Some reason \<Rightarrow> reason
              | None \<Rightarrow> JStr ''No reason provided'')),
          ('':updatedAt'', JStr (now env 0))] \<rparr>"

definition cancelAppointment ::
  "env \<Rightarrow> string \<Rightarrow> item \<Rightarrow> item list \<Rightarrow> (error + item) \<times> item list"
where
  "cancelAppointment env ident body tbl = sendUpdate env tbl (cancelCommand env ident body)"

subsection \<open>Queries by doctor\<close>

text \<open>
  Query-string parameters are strings; an absent or empty one is falsy.
\<close>

definition given :: "string option \<Rightarrow> bool" where
  "given p = (case p of None \<Rightarrow> False | Some s \<Rightarrow> s \<noteq> [])"

definition bound :: "string option \<Rightarrow> jsval list" where
  "bound p = (case p of None \<Rightarrow> [] | Some s \<Rightarrow> if s = [] then [] else [JStr s])"

definition getDoctorAppointments ::
  "env \<Rightarrow> string \<Rightarrow> string option \<Rightarrow> string option \<Rightarrow> item list \<Rightarrow> error + item list"
where
  "getDoctorAppointments env doctorId date status tbl =
     (if \<not> accepts env (Query ''Appointments''
                          (JStr doctorId # bound date @ bound status))
      then Inl StoreError
      else Inr (filter
                  (\<lambda>it. map_of it ''doctorId'' = Some (JStr doctorId) \<and>
                        (given date \<longrightarrow> map_of it ''appointmentDate'' = map_option JStr date) \<and>
                        (given status \<longrightarrow>
                           map_of it ''appointmentStatus'' = map_option JStr status))
                  tbl))"

subsection \<open>Available slots\<close>

record doctor =
  workingHours :: "workingHours option"
  slotDuration :: "int option"

record slotsResponse =
  rdate :: string
  availableSlots :: "string list"
  rslotDuration :: int

text \<open>
  \<^verbatim>\<open>getAvailableSlots\<close>. The doctor's item may lack \<^verbatim>\<open>workingHours\<close>, and reading
  \<^verbatim>\<open>workingHours.start\<close> then throws. \<open>None\<close> is a request that never gets its response.
\<close>

definition slotsQuery :: "item list \<Rightarrow> string \<Rightarrow> string \<Rightarrow> item list" where
  "slotsQuery tbl doctorId date =
     filter (\<lambda>it. map_of it ''doctorId'' = Some (JStr doctorId) \<and>
                   map_of it ''appointmentDate'' = Some (JStr date)) tbl"

definition slotsData :: "string \<Rightarrow> int \<Rightarrow> string list \<Rightarrow> slotsResponse" where
  "slotsData date duration slots =
     \<lparr> rdate = date, availableSlots = slots, rslotDuration = duration \<rparr>"

definition getAvailableSlots ::
  "env \<Rightarrow> string \<Rightarrow> string option \<Rightarrow> item list \<Rightarrow> (string \<times> doctor) list \<Rightarrow>
   (error + slotsResponse) option"
where
  "getAvailableSlots env doctorId dateParam tbl doctors =
     (case dateParam of
        None \<Rightarrow> Some (Inl ValidationError)
      | Some date \<Rightarrow>
          if date = [] then Some (Inl ValidationError)
          else if \<not> accepts env (Get ''Doctors'' doctorId) then Some (Inl StoreError)
          else (case map_of doctors doctorId of
                  None \<Rightarrow> Some (Inl NotFoundError)
                | Some doc \<Rightarrow>
                    if \<not> accepts env (Query ''Appointments'' [JStr doctorId, JStr date])
                    then Some (Inl StoreError)
                    else (case workingHours doc of
                            None \<Rightarrow> Some (Inl StoreError)
                          | Some wh \<Rightarrow>
                              (case computeAvailableSlots (midnight24 env) wh (slotDuration doc)
                                      (map (\<lambda>apt. map_of apt ''appointmentTime'')
                                         (slotsQuery tbl doctorId date)) date of
                                 None \<Rightarrow> None
                               | Some slots \<Rightarrow>
                                   Some (Inr (slotsData date
                                                (effectiveSlotDuration (slotDuration doc))
                                                slots))))))"

subsection \<open>Schedule aggregator\<close>

text \<open>
  The \<^verbatim>\<open>forEach\<close> of \<^verbatim>\<open>getDoctorSchedule\<close> (lines 322 to 329, "Organize schedule by date")
  fills a plain object. Reading
  \<^verbatim>\<open>schedule[key]\<close> for a key the object does not own finds what \<^verbatim>\<open>Object.prototype\<close> has
  under that name; for the names below that is truthy and has no \<^verbatim>\<open>push\<close>, so the
  handler throws. The items come from a key condition on a string attribute, so their
  \<^verbatim>\<open>appointmentDate\<close> is a string.
\<close>

definition objectPrototypeKeys :: "string list" where
  "objectPrototypeKeys =
     [''constructor'', ''__proto__'', ''toString'', ''toLocaleString'', ''valueOf'',
      ''hasOwnProperty'', ''isPrototypeOf'', ''propertyIsEnumerable'',
      ''__defineGetter__'', ''__defineSetter__'', ''__lookupGetter__'', ''__lookupSetter__'']"

fun organizeSchedule ::
  "item list \<Rightarrow> (string \<times> item list) list \<Rightarrow> error + (string \<times> item list) list"
where
  "organizeSchedule [] schedule = Inr schedule"
| "organizeSchedule (appointment # rest) schedule =
     (case map_of appointment ''appointmentDate'' of
        Some (JStr d) \<Rightarrow>
          (case map_of schedule d of
             None \<Rightarrow>
               if d \<in> set objectPrototypeKeys then Inl StoreError
               else organizeSchedule rest (AList.update d [appointment] schedule)
           | Some xs \<Rightarrow> organizeSchedule rest (AList.update d (xs @ [appointment]) schedule))
      | _ \<Rightarrow> Inl StoreError)"

record scheduleResponse =
  sworkingHours :: "workingHours option"
  sslotDuration :: "int option"
  appointments :: "(string \<times> item list) list"

text \<open>
  The query of \<^verbatim>\<open>getDoctorSchedule\<close>, key condition
  \<^verbatim>\<open>doctorId = :doctorId AND appointmentDate BETWEEN :startDate AND :endDate\<close>. Strings are
  compared byte by byte. The store refuses a \<^verbatim>\<open>BETWEEN\<close> whose lower bound is above its
  upper bound, and the handler then answers 500.
\<close>

definition scheduleItems :: "item list \<Rightarrow> string \<Rightarrow> string \<Rightarrow> string \<Rightarrow> item list" where
  "scheduleItems tbl ident startDate endDate =
     filter (\<lambda>it. map_of it ''doctorId'' = Some (JStr ident) \<and>
                   (case map_of it ''appointmentDate'' of
                      Some (JStr d) \<Rightarrow> startDate \<le> d \<and> d \<le> endDate
                    | _ \<Rightarrow> False)) tbl"

definition scheduleQuery ::
  "item list \<Rightarrow> string \<Rightarrow> string \<Rightarrow> string \<Rightarrow> error + item list"
where
  "scheduleQuery tbl ident startDate endDate =
     (if endDate < startDate then Inl StoreError
      else Inr (scheduleItems tbl ident startDate endDate))"

definition getDoctorSchedule ::
  "env \<Rightarrow> string \<Rightarrow> string option \<Rightarrow> string option \<Rightarrow> item list \<Rightarrow> (string \<times> doctor) list \<Rightarrow>
   error + scheduleResponse"
where
  "getDoctorSchedule env ident startParam endParam tbl doctors =
     (case (startParam, endParam) of
        (Some startDate, Some endDate) \<Rightarrow>
          if startDate = [] \<or> endDate = [] then Inl ValidationError
          else if \<not> accepts env (Query ''Appointments'' [JStr ident, JStr startDate, JStr endDate])
          then Inl StoreError
          else (case scheduleQuery tbl ident startDate endDate of
                  Inl e \<Rightarrow> Inl e
                | Inr items \<Rightarrow>
                    if \<not> accepts env (Get ''Doctors'' ident) then Inl StoreError
                    else (case map_of doctors ident of
                            None \<Rightarrow> Inl NotFoundError
                          | Some doc \<Rightarrow>
                              (case organizeSchedule items [] of
                                 Inl e \<Rightarrow> Inl e
                               | Inr schedule \<Rightarrow>
                                   Inr \<lparr> sworkingHours = workingHours doc,
                                         sslotDuration = slotDuration doc,
                                         appointments = schedule \<rparr>)))
      | _ \<Rightarrow> Inl ValidationError)"

subsection \<open>Reference predicates and sample data\<close>

text \<open>
  The candidate grid: the times \<open>s\<close>, \<open>s + d\<close>, \<open>s + 2d\<close>, ... strictly below \<open>e\<close>, for a
  positive step.
\<close>

function candidates :: "int \<Rightarrow> int \<Rightarrow> int \<Rightarrow> int list" where
  "candidates s e d = (if s < e \<and> 0 < d then s # candidates (s + d) e d else [])"
  by pat_completeness auto
termination
  by (relation "measure (\<lambda>(s, e, d). nat (e - s))") auto

declare candidates.simps [simp del]

text \<open>The sixteen half-hour slots from 09:00 to 16:30.\<close>

definition nineToFive :: "string list" where
  "nineToFive =
     [''09:00'', ''09:30'', ''10:00'', ''10:30'', ''11:00'', ''11:30'', ''12:00'', ''12:30'',
      ''13:00'', ''13:30'', ''14:00'', ''14:30'', ''15:00'', ''15:30'', ''16:00'', ''16:30'']"

text \<open>
  The conflict test in the words of the specification: some appointment with status
  \<^verbatim>\<open>scheduled\<close> for the same doctor and date has the candidate time and another identifier.
\<close>

definition scheduledConflict ::
  "item list \<Rightarrow> jsval \<Rightarrow> jsval \<Rightarrow> jsval \<Rightarrow> string option \<Rightarrow> bool"
where
  "scheduledConflict tbl doctorId appointmentDate appointmentTime currentId =
     (\<exists>it \<in> set tbl.
        map_of it ''status'' = Some (JStr ''scheduled'') \<and>
        map_of it ''doctorId'' = Some doctorId \<and>
        map_of it ''appointmentDate'' = Some appointmentDate \<and>
        map_of it ''appointmentTime'' = Some appointmentTime \<and>
        (case currentId of
           None \<Rightarrow> True
         | Some ident \<Rightarrow> map_of it ''appointmentId'' \<noteq> Some (JStr ident)))"

text \<open>
  A store that answers every request, a clock, and a booking of doctor \<^verbatim>\<open>d1\<close> at 10:00
  on 2024-01-15: the table after the booking, and after its cancellation.
\<close>

definition clinicEnv :: env where
  "clinicEnv = \<lparr> accepts = (\<lambda>r. True), midnight24 = False, uuidv4 = ''a1'',
               now = (\<lambda>n. if n = 0 then ''2024-01-10T08:00:00.000Z''
                           else ''2024-01-10T08:00:00.001Z'') \<rparr>"

definition laterEnv :: env where
  "laterEnv = \<lparr> accepts = (\<lambda>r. True), midnight24 = False, uuidv4 = ''b2'',
              now = (\<lambda>n. ''2024-01-11T09:30:00.000Z'') \<rparr>"

definition bookingBody :: item where
  "bookingBody =
     [(''patientId'', JStr ''p1''), (''doctorId'', JStr ''d1''),
      (''appointmentDate'', JStr ''2024-01-15''), (''appointmentTime'', JStr ''10:00''),
      (''appointmentType'', JStr ''checkup''), (''notes'', JStr ''first visit'')]"

definition bookedTable :: "item list" where
  "bookedTable =
     [[(''appointmentId'', JStr ''a1''), (''patientId'', JStr ''p1''),
       (''doctorId'', JStr ''d1''), (''appointmentDate'', JStr ''2024-01-15''),
       (''appointmentTime'', JStr ''10:00''), (''appointmentType'', JStr ''checkup''),
       (''notes'', JStr ''first visit''), (''status'', JStr ''scheduled''),
       (''createdAt'', JStr ''2024-01-10T08:00:00.000Z''),
       (''updatedAt'', JStr ''2024-01-10T08:00:00.001Z'')]]"

definition cancelledTable :: "item list" where
  "cancelledTable =
     [[(''appointmentId'', JStr ''a1''), (''patientId'', JStr ''p1''),
       (''doctorId'', JStr ''d1''), (''appointmentDate'', JStr ''2024-01-15''),
       (''appointmentTime'', JStr ''10:00''), (''appointmentType'', JStr ''checkup''),
       (''notes'', JStr ''first visit''), (''status'', JStr ''cancelled''),
       (''createdAt'', JStr ''2024-01-10T08:00:00.000Z''),
       (''updatedAt'', JStr ''2024-01-11T09:30:00.000Z''),
       (''cancellationReason'', JStr ''No reason provided'')]]"

definition staffTable :: "(string \<times> doctor) list" where
  "staffTable =
     [(''d1'', \<lparr> workingHours = Some \<lparr>wh_start = ''09:00'', wh_end = ''17:00''\<rparr>,
                 slotDuration = Some 30 \<rparr>)]"

text \<open>The same slots without 10:00.\<close>

definition tenTaken :: "string list" where
  "tenTaken =
     [''09:00'', ''09:30'', ''10:30'', ''11:00'', ''11:30'', ''12:00'', ''12:30'',
      ''13:00'', ''13:30'', ''14:00'', ''14:30'', ''15:00'', ''15:30'', ''16:00'', ''16:30'']"

text \<open>
  A second booking of the same hour with doctor \<^verbatim>\<open>d2\<close>, and the table after the first
  appointment has been moved to that doctor.
\<close>

definition twoDoctors :: "item list" where
  "twoDoctors =
     bookedTable @
     [[(''appointmentId'', JStr ''b2''), (''patientId'', JStr ''p2''),
       (''doctorId'', JStr ''d2''), (''appointmentDate'', JStr ''2024-01-15''),
       (''appointmentTime'', JStr ''10:00''), (''appointmentType'', JStr ''checkup''),
       (''notes'', JStr ''second patient''), (''status'', JStr ''scheduled''),
       (''createdAt'', JStr ''2024-01-10T08:05:00.000Z''),
       (''updatedAt'', JStr ''2024-01-10T08:05:00.001Z'')]]"

definition movedTable :: "item list" where
  "movedTable =
     [[(''appointmentId'', JStr ''a1''), (''patientId'', JStr ''p1''),
       (''doctorId'', JStr ''d2''), (''appointmentDate'', JStr ''2024-01-15''),
       (''appointmentTime'', JStr ''10:00''), (''appointmentType'', JStr ''checkup''),
       (''notes'', JStr ''first visit''), (''status'', JStr ''scheduled''),
       (''createdAt'', JStr ''2024-01-10T08:00:00.000Z''),
       (''updatedAt'', JStr ''2024-01-11T09:30:00.000Z'')],
      [(''appointmentId'', JStr ''b2''), (''patientId'', JStr ''p2''),
       (''doctorId'', JStr ''d2''), (''appointmentDate'', JStr ''2024-01-15''),
       (''appointmentTime'', JStr ''10:00''), (''appointmentType'', JStr ''checkup''),
       (''notes'', JStr ''second patient''), (''status'', JStr ''scheduled''),
       (''createdAt'', JStr ''2024-01-10T08:05:00.000Z''),
       (''updatedAt'', JStr ''2024-01-10T08:05:00.001Z'')]]"

text \<open>
  A payload that tries to replace identifier and creation time and changes the notes, and
  the table it leaves when applied to the first booking.
\<close>

definition renote :: item where
  "renote =
     [(''appointmentId'', JStr ''zz''), (''createdAt'', JStr ''1999-01-01T00:00:00.000Z''),
      (''notes'', JStr ''bring x-rays'')]"

definition renotedTable :: "item list" where
  "renotedTable =
     [[(''appointmentId'', JStr ''a1''), (''patientId'', JStr ''p1''),
       (''doctorId'', JStr ''d1''), (''appointmentDate'', JStr ''2024-01-15''),
       (''appointmentTime'', JStr ''10:00''), (''appointmentType'', JStr ''checkup''),
       (''notes'', JStr ''bring x-rays''), (''status'', JStr ''scheduled''),
       (''createdAt'', JStr ''2024-01-10T08:00:00.000Z''),
       (''updatedAt'', JStr ''2024-01-11T09:30:00.000Z'')]]"

text \<open>
  A week of doctor \<^verbatim>\<open>d1\<close>, listed by date: on the 15th a 10:00 appointment before a 09:00
  one, a cancelled appointment on the 16th, one on the 20th; and an appointment of doctor
  \<^verbatim>\<open>d2\<close>.
\<close>

definition weekTable :: "item list" where
  "weekTable =
     [[(''appointmentId'', JStr ''w1''), (''doctorId'', JStr ''d1''),
       (''appointmentDate'', JStr ''2024-01-15''), (''appointmentTime'', JStr ''10:00''),
       (''status'', JStr ''scheduled'')],
      [(''appointmentId'', JStr ''w2''), (''doctorId'', JStr ''d2''),
       (''appointmentDate'', JStr ''2024-01-15''), (''appointmentTime'', JStr ''11:00''),
       (''status'', JStr ''scheduled'')],
      [(''appointmentId'', JStr ''w4''), (''doctorId'', JStr ''d1''),
       (''appointmentDate'', JStr ''2024-01-15''), (''appointmentTime'', JStr ''09:00''),
       (''status'', JStr ''scheduled'')],
      [(''appointmentId'', JStr ''w3''), (''doctorId'', JStr ''d1''),
       (''appointmentDate'', JStr ''2024-01-16''), (''appointmentTime'', JStr ''09:30''),
       (''status'', JStr ''cancelled'')],
      [(''appointmentId'', JStr ''w5''), (''doctorId'', JStr ''d1''),
       (''appointmentDate'', JStr ''2024-01-20''), (''appointmentTime'', JStr ''09:00''),
       (''status'', JStr ''scheduled'')]]"

text \<open>The attributes an accepted update of a payload writes.\<close>

definition updateSets :: "env \<Rightarrow> item \<Rightarrow> (string \<times> jsval) list" where
  "updateSets env updates =
     (''updatedAt'', JStr (now env 0)) #
     filter (\<lambda>(key, v). key \<noteq> ''appointmentId'' \<and> key \<noteq> ''createdAt'') updates"

text \<open>
  The tables the engine can leave: starting from the empty table, any sequence of successful
  Create and Cancel requests, and of successful Update requests whose payload does not name
  \<^verbatim>\<open>appointmentStatus\<close>.
\<close>

inductive written :: "item list \<Rightarrow> bool" where
  nothing: "written []"
| created: "written tbl \<Longrightarrow> createAppointment env body tbl = (Inr a, tbl') \<Longrightarrow> written tbl'"
| cancelled: "written tbl \<Longrightarrow> cancelAppointment env ident body tbl = (Inr a, tbl') \<Longrightarrow> written tbl'"
| updated: "written tbl \<Longrightarrow> ''appointmentStatus'' \<notin> fst ` set updates \<Longrightarrow>
            updateAppointment env ident updates tbl = (Inr a, tbl') \<Longrightarrow> written tbl'"

text \<open>A Create payload whose \<^verbatim>\<open>doctorId\<close> is the empty string.\<close>

definition noDoctor :: item where
  "noDoctor =
     [(''patientId'', JStr ''p1''), (''doctorId'', JStr []),
      (''appointmentDate'', JStr ''2024-01-15''), (''appointmentTime'', JStr ''10:00'')]"

text \<open>The attributes a cancellation writes.\<close>

definition cancelSets :: "env \<Rightarrow> item \<Rightarrow> (string \<times> jsval) list" where
  "cancelSets env body =
     [(''status'', JStr ''cancelled''),
      (''cancellationReason'',
         (case orElse (map_of body ''cancellationReason'') (Some (JStr ''No reason provided'')) of
            Some reason \<Rightarrow> reason
          | None \<Rightarrow> JStr ''No reason provided'')),
      (''updatedAt'', JStr (now env 0))]"

section \<open>Slot generation\<close>

lemma slotLoop_closed:
  "0 < d \<Longrightarrow>
   slotLoop h24 booked d e s acc =
     Some (acc @ filter (\<lambda>t. Some (JStr t) \<notin> set booked)
                   (map (toLocaleTimeString h24) (candidates s e d)))"
proof (induction s e d arbitrary: acc rule: candidates.induct)
  case (1 s e d)
  show ?case
  proof (cases "s < e")
    case True
    with 1 show ?thesis
      by (subst slotLoop.simps, subst candidates.simps) simp
  next
    case False
    then show ?thesis
      by (subst slotLoop.simps, subst candidates.simps) simp
  qed
qed

lemma slot_count_step:
  fixes s e d :: int
  assumes "0 < d" and "s < e"
  shows "nat ((e - s + d - 1) div d) = Suc (nat ((e - (s + d) + d - 1) div d))"
proof -
  have shift: "(e - s + d - 1) div d = (e - s - 1) div d + 1"
    using assms by (metis add.commute add_diff_eq div_add_self1 less_irrefl)
  have nonneg: "0 \<le> (e - s - 1) div d"
    using assms by (simp add: pos_imp_zdiv_nonneg_iff)
  have same: "e - (s + d) + d - 1 = e - s - 1"
    by simp
  show ?thesis
    unfolding shift same using nonneg by simp
qed

lemma slot_count_zero:
  fixes s e d :: int
  assumes "0 < d" and "\<not> s < e"
  shows "nat ((e - s + d - 1) div d) = 0"
proof (cases "0 \<le> e - s + d - 1")
  case True
  moreover have "e - s + d - 1 < d"
    using assms by simp
  ultimately show ?thesis
    by (simp add: div_pos_pos_trivial)
next
  case False
  then have "(e - s + d - 1) div d < 0"
    using assms(1) by (simp add: div_neg_pos_less0)
  then show ?thesis
    by simp
qed

lemma candidates_closed:
  "0 < d \<Longrightarrow>
   candidates s e d = map (\<lambda>k. s + int k * d) [0..<nat ((e - s + d - 1) div d)]"
proof (induction s e d rule: candidates.induct)
  case (1 s e d)
  show ?case
  proof (cases "s < e")
    case True
    have "candidates s e d = s # candidates (s + d) e d"
      using True 1(2) by (subst candidates.simps) simp
    also have "candidates (s + d) e d =
        map (\<lambda>k. s + d + int k * d) [0..<nat ((e - (s + d) + d - 1) div d)]"
      using 1 True by simp
    also have "s # map (\<lambda>k. s + d + int k * d) [0..<nat ((e - (s + d) + d - 1) div d)] =
        map (\<lambda>k. s + int k * d) [0..<Suc (nat ((e - (s + d) + d - 1) div d))]"
      by (simp add: upt_conv_Cons map_Suc_upt[symmetric] algebra_simps del: upt_Suc)
    finally show ?thesis
      using slot_count_step[OF 1(2) True] by simp
  next
    case False
    then show ?thesis
      using slot_count_zero[OF 1(2) False] by (subst candidates.simps) simp
  qed
qed

lemma candidates_below_end: "t \<in> set (candidates s e d) \<Longrightarrow> t < e"
proof (induction s e d rule: candidates.induct)
  case (1 s e d)
  from 1(2) have "s < e \<and> 0 < d \<and> (t = s \<or> t \<in> set (candidates (s + d) e d))"
    by (subst (asm) candidates.simps) (auto split: if_splits)
  with 1(1) show ?case
    by auto
qed

lemma slot_count_reaches_end:
  fixes s e d :: int
  assumes "0 < d"
  shows "e \<le> s + int (nat ((e - s + d - 1) div d)) * d"
proof (cases "0 \<le> (e - s + d - 1) div d")
  case True
  have "(e - s + d - 1) div d * d = (e - s + d - 1) - (e - s + d - 1) mod d"
    by (simp add: algebra_simps minus_mod_eq_mult_div)
  moreover have "(e - s + d - 1) mod d \<le> d - 1"
    using assms by (simp add: zle_diff1_eq)
  ultimately have "e - s \<le> (e - s + d - 1) div d * d"
    by linarith
  with True show ?thesis
    by simp
next
  case False
  then have "e - s + d - 1 < 0"
    using assms by (simp add: pos_imp_zdiv_nonneg_iff)
  with False assms show ?thesis
    by simp
qed

lemma computeAvailableSlots_grid:
  assumes "newDate date (wh_start wh) = Some s"
    and "newDate date (wh_end wh) = Some e"
    and "0 < effectiveSlotDuration dur"
  shows "computeAvailableSlots h24 wh dur booked date =
           Some (filter (\<lambda>t. Some (JStr t) \<notin> set booked)
                   (map (toLocaleTimeString h24) (candidates s e (effectiveSlotDuration dur))))"
  using assms by (simp add: computeAvailableSlots_def slotLoop_closed)

lemma nineToFive_grid:
  "map (toLocaleTimeString h24) (candidates 540 1020 30) = nineToFive"
  by (simp add: candidates.simps toLocaleTimeString_def twoDigit_def nineToFive_def)

lemma nineToFive_shape:
  "length nineToFive = 16 \<and> sorted_wrt (<) nineToFive \<and> (\<forall>t \<in> set nineToFive. t < ''17:00'')"
  by (simp add: nineToFive_def)

text \<open>
  C4. With working hours 09:00 to 17:00, a slot duration of 30 and no booked time, the
  calculator returns exactly the 16 slots 09:00, 09:30, ..., 16:30, strictly ascending and
  all before 17:00. In general, for working hours that parse to \<open>s\<close> and \<open>e\<close> and a
  positive effective duration \<open>d\<close>, the candidates are \<open>s\<close>, \<open>s + d\<close>, \<open>s + 2d\<close>, ...:
  every one of them is before \<open>e\<close>, and the first one left out has reached or passed
  \<open>e\<close>.
\<close>

theorem slot_generation_grid:
  "(validDate date \<longrightarrow>
      computeAvailableSlots h24 \<lparr>wh_start = ''09:00'', wh_end = ''17:00''\<rparr> (Some 30) [] date =
        Some nineToFive \<and>
      length nineToFive = 16 \<and> sorted_wrt (<) nineToFive \<and>
      (\<forall>t \<in> set nineToFive. t < ''17:00'')) \<and>
   (newDate date (wh_start wh) = Some s \<and> newDate date (wh_end wh) = Some e \<and>
    d = effectiveSlotDuration dur \<and> 0 < d \<and> n = nat ((e - s + d - 1) div d) \<longrightarrow>
      computeAvailableSlots h24 wh dur [] date =
        Some (map (\<lambda>k. toLocaleTimeString h24 (s + int k * d)) [0..<n]) \<and>
      (\<forall>k < n. s + int k * d < e) \<and> e \<le> s + int n * d)"
proof (intro conjI impI)
  assume v: "validDate date"
  have s: "newDate date (wh_start \<lparr>wh_start = ''09:00'', wh_end = ''17:00''\<rparr>) = Some 540"
    using v by (simp add: newDate_def isDigit_def digitVal_def)
  have e: "newDate date (wh_end \<lparr>wh_start = ''09:00'', wh_end = ''17:00''\<rparr>) = Some 1020"
    using v by (simp add: newDate_def isDigit_def digitVal_def)
  have d: "effectiveSlotDuration (Some 30) = 30"
    by (simp add: effectiveSlotDuration_def)
  show "computeAvailableSlots h24 \<lparr>wh_start = ''09:00'', wh_end = ''17:00''\<rparr> (Some 30) [] date =
        Some nineToFive"
    using computeAvailableSlots_grid[OF s e, of "Some 30" h24 "[]"] d nineToFive_grid[of h24]
    by simp
  show "length nineToFive = 16" "sorted_wrt (<) nineToFive" "\<forall>t \<in> set nineToFive. t < ''17:00''"
    using nineToFive_shape by simp_all
next
  assume a: "newDate date (wh_start wh) = Some s \<and> newDate date (wh_end wh) = Some e \<and>
    d = effectiveSlotDuration dur \<and> 0 < d \<and> n = nat ((e - s + d - 1) div d)"
  then have grid: "candidates s e d = map (\<lambda>k. s + int k * d) [0..<n]"
    using candidates_closed[of d s e] by simp
  show "computeAvailableSlots h24 wh dur [] date =
        Some (map (\<lambda>k. toLocaleTimeString h24 (s + int k * d)) [0..<n])"
    using a computeAvailableSlots_grid[of date wh s e dur h24 "[]"] grid
    by (simp add: comp_def)
  show "\<forall>k < n. s + int k * d < e"
  proof (intro allI impI)
    fix k assume "k < n"
    then have "s + int k * d \<in> set (candidates s e d)"
      unfolding grid by auto
    then show "s + int k * d < e"
      by (rule candidates_below_end)
  qed
  show "e \<le> s + int n * d"
    using a slot_count_reaches_end[of d e s] by simp
qed

theorem slot_generation_grid_witness:
  "computeAvailableSlots False \<lparr>wh_start = ''09:00'', wh_end = ''17:00''\<rparr> (Some 30) []
     ''2024-01-15'' = Some nineToFive \<and>
   computeAvailableSlots False \<lparr>wh_start = ''08:00'', wh_end = ''09:30''\<rparr> (Some 45) []
     ''2024-01-15'' = Some [''08:00'', ''08:45'']"
proof -
  have v: "validDate ''2024-01-15''"
    by (simp add: isDigit_def digitVal_def)
  have h: "newDate ''2024-01-15'' (wh_start \<lparr>wh_start = ''08:00'', wh_end = ''09:30''\<rparr>) = Some 480 \<and>
           newDate ''2024-01-15'' (wh_end \<lparr>wh_start = ''08:00'', wh_end = ''09:30''\<rparr>) = Some 570 \<and>
           (45::int) = effectiveSlotDuration (Some 45) \<and> (0::int) < 45 \<and>
           (2::nat) = nat ((570 - 480 + 45 - 1) div 45)"
    by (simp add: newDate_def isDigit_def digitVal_def effectiveSlotDuration_def)
  show ?thesis
    using v h
      slot_generation_grid[of "''2024-01-15''" False
        "\<lparr>wh_start = ''08:00'', wh_end = ''09:30''\<rparr>" 480 570 45 "Some 45" 2]
    by (simp add: toLocaleTimeString_def twoDigit_def numeral_2_eq_2)
qed

section \<open>Sample runs\<close>

lemma create_booking: "createAppointment clinicEnv bookingBody [] = (Inr (hd bookedTable), bookedTable)"
  by (simp add: createAppointment_def clinicEnv_def bookingBody_def bookedTable_def hasConflict_def
      conflictItems_def newAppointment_def optAttr_def ddbPut_def)

lemma cancel_booking: "cancelAppointment laterEnv ''a1'' [] bookedTable = (Inr (hd cancelledTable), cancelledTable)"
  by (simp add: cancelAppointment_def sendUpdate_def cancelCommand_def laterEnv_def bookedTable_def
      cancelledTable_def ddbUpdate_def resolvePath_def ddbGet_def setAttrs_def orElse_def)

section \<open>What an update writes\<close>

lemma map_of_setAttrs_other:
  "k \<notin> fst ` set sets \<Longrightarrow> map_of (setAttrs sets it) k = map_of it k"
  unfolding setAttrs_def
  by (induction sets arbitrary: it) (auto simp: update_conv')

lemma sendUpdate_error: "fst (sendUpdate env tbl command) = Inl e \<Longrightarrow> e = StoreError"
  by (auto simp: sendUpdate_def ddbUpdate_def Let_def
      split: if_splits option.splits sum.splits prod.splits)

lemma cancel_table:
  "snd (cancelAppointment env ident body tbl) = tbl \<or>
   snd (cancelAppointment env ident body tbl) =
     map (\<lambda>it. if map_of it ''appointmentId'' = Some (JStr ident)
                then setAttrs (cancelSets env body) it else it) tbl \<or>
   snd (cancelAppointment env ident body tbl) =
     tbl @ [setAttrs (cancelSets env body) [(''appointmentId'', JStr ident)]]"
  by (simp add: cancelAppointment_def sendUpdate_def cancelCommand_def ddbUpdate_def
      resolvePath_def cancelSets_def Let_def split: option.splits)

lemma cancel_keeps_booked_times:
  "map (\<lambda>apt. map_of apt ''appointmentTime'')
     (slotsQuery (snd (cancelAppointment env ident body tbl)) doctorId date) =
   map (\<lambda>apt. map_of apt ''appointmentTime'') (slotsQuery tbl doctorId date)"
proof -
  let ?S = "cancelSets env body"
  let ?f = "\<lambda>it. if map_of it ''appointmentId'' = Some (JStr ident) then setAttrs ?S it else it"
  have keep: "map_of (setAttrs ?S it) k = map_of it k"
    if "k \<in> {''doctorId'', ''appointmentDate'', ''appointmentTime''}" for it k
    using that by (intro map_of_setAttrs_other) (auto simp: cancelSets_def)
  have same: "map_of (?f it) k = map_of it k"
    if "k \<in> {''doctorId'', ''appointmentDate'', ''appointmentTime''}" for it k
    using that keep by simp
  have mapped: "map (\<lambda>apt. map_of apt ''appointmentTime'') (slotsQuery (map ?f xs) doctorId date) =
                map (\<lambda>apt. map_of apt ''appointmentTime'') (slotsQuery xs doctorId date)" for xs
    unfolding slotsQuery_def
    by (induction xs) (simp_all add: same del: map_of_eq_Some_iff)
  have ghost: "slotsQuery (tbl @ [setAttrs ?S [(''appointmentId'', JStr ident)]]) doctorId date =
               slotsQuery tbl doctorId date"
    unfolding slotsQuery_def by (simp add: keep)
  from cancel_table[of env ident body tbl] show ?thesis
    using mapped[of tbl] ghost by auto
qed

section \<open>Conflict detection\<close>

lemma hasConflict_iff:
  "hasConflict tbl doctorId appointmentDate appointmentTime currentId \<longleftrightarrow>
     (\<exists>it \<in> set tbl.
        map_of it ''doctorId'' = Some doctorId \<and>
        map_of it ''appointmentDate'' = Some appointmentDate \<and>
        map_of it ''appointmentTime'' = Some appointmentTime \<and>
        (\<forall>i. currentId = Some i \<longrightarrow> map_of it ''appointmentId'' \<noteq> Some (JStr i)))"
  by (cases currentId) (auto simp: hasConflict_def conflictItems_def filter_empty_conv)

lemma create_conflict_iff:
  assumes "truthy (map_of body ''patientId'')"
    and "map_of body ''doctorId'' = Some d" and "truthy (Some d)"
    and "map_of body ''appointmentDate'' = Some dt" and "truthy (Some dt)"
    and "map_of body ''appointmentTime'' = Some t" and "truthy (Some t)"
    and "accepts env (Query ''Appointments'' [d, dt, t])"
  shows "fst (createAppointment env body tbl) = Inl ConflictError \<longleftrightarrow> hasConflict tbl d dt t None"
  using assms by (simp add: createAppointment_def)

lemma update_conflict_iff:
  assumes "accepts env (Get ''Appointments'' ident)"
    and "ddbGet tbl ident = Some existing"
    and "truthy (map_of updates ''appointmentDate'') \<or> truthy (map_of updates ''appointmentTime'')"
    and "orElse (map_of updates ''doctorId'') (map_of existing ''doctorId'') = Some d"
    and "orElse (map_of updates ''appointmentDate'') (map_of existing ''appointmentDate'') = Some dt"
    and "orElse (map_of updates ''appointmentTime'') (map_of existing ''appointmentTime'') = Some t"
    and "accepts env (Query ''Appointments'' [d, dt, t, JStr ident])"
  shows "fst (updateAppointment env ident updates tbl) = Inl ConflictError \<longleftrightarrow>
         hasConflict tbl d dt t (Some ident)"
proof (cases "hasConflict tbl d dt t (Some ident)")
  case True
  with assms show ?thesis
    by (simp add: updateAppointment_def updateConflictCheck_def)
next
  case False
  with assms have "updateAppointment env ident updates tbl =
      sendUpdate env tbl (buildUpdate env ident updates)"
    by (simp add: updateAppointment_def updateConflictCheck_def)
  with False sendUpdate_error[of env tbl "buildUpdate env ident updates" ConflictError]
  show ?thesis
    by auto
qed

text \<open>
  C1, as the code has it. The conflict check of Create and Update does not look at the
  status: it is true exactly when some stored appointment, scheduled or cancelled, has the
  same doctor, date and time and an identifier other than the excluded one. Create answers
  \<open>ConflictError\<close> exactly when the check is true, and so does an Update whose check runs.
\<close>

theorem conflict_check_any_status:
  "(hasConflict tbl doctorId appointmentDate appointmentTime currentId \<longleftrightarrow>
      (\<exists>it \<in> set tbl.
         map_of it ''doctorId'' = Some doctorId \<and>
         map_of it ''appointmentDate'' = Some appointmentDate \<and>
         map_of it ''appointmentTime'' = Some appointmentTime \<and>
         (\<forall>i. currentId = Some i \<longrightarrow> map_of it ''appointmentId'' \<noteq> Some (JStr i)))) \<and>
   (truthy (map_of body ''patientId'') \<and>
    map_of body ''doctorId'' = Some d \<and> truthy (Some d) \<and>
    map_of body ''appointmentDate'' = Some dt \<and> truthy (Some dt) \<and>
    map_of body ''appointmentTime'' = Some t \<and> truthy (Some t) \<and>
    accepts env (Query ''Appointments'' [d, dt, t]) \<longrightarrow>
      (fst (createAppointment env body tbl) = Inl ConflictError \<longleftrightarrow>
       hasConflict tbl d dt t None)) \<and>
   (accepts env (Get ''Appointments'' ident) \<and> ddbGet tbl ident = Some existing \<and>
    (truthy (map_of updates ''appointmentDate'') \<or> truthy (map_of updates ''appointmentTime'')) \<and>
    orElse (map_of updates ''doctorId'') (map_of existing ''doctorId'') = Some d' \<and>
    orElse (map_of updates ''appointmentDate'') (map_of existing ''appointmentDate'') = Some dt' \<and>
    orElse (map_of updates ''appointmentTime'') (map_of existing ''appointmentTime'') = Some t' \<and>
    accepts env (Query ''Appointments'' [d', dt', t', JStr ident]) \<longrightarrow>
      (fst (updateAppointment env ident updates tbl) = Inl ConflictError \<longleftrightarrow>
       hasConflict tbl d' dt' t' (Some ident)))"
proof (intro conjI impI)
  show "hasConflict tbl doctorId appointmentDate appointmentTime currentId \<longleftrightarrow>
      (\<exists>it \<in> set tbl.
         map_of it ''doctorId'' = Some doctorId \<and>
         map_of it ''appointmentDate'' = Some appointmentDate \<and>
         map_of it ''appointmentTime'' = Some appointmentTime \<and>
         (\<forall>i. currentId = Some i \<longrightarrow> map_of it ''appointmentId'' \<noteq> Some (JStr i)))"
    by (rule hasConflict_iff)
next
  assume "truthy (map_of body ''patientId'') \<and>
    map_of body ''doctorId'' = Some d \<and> truthy (Some d) \<and>
    map_of body ''appointmentDate'' = Some dt \<and> truthy (Some dt) \<and>
    map_of body ''appointmentTime'' = Some t \<and> truthy (Some t) \<and>
    accepts env (Query ''Appointments'' [d, dt, t])"
  then show "fst (createAppointment env body tbl) = Inl ConflictError \<longleftrightarrow>
       hasConflict tbl d dt t None"
    by (intro create_conflict_iff) simp_all
next
  assume "accepts env (Get ''Appointments'' ident) \<and> ddbGet tbl ident = Some existing \<and>
    (truthy (map_of updates ''appointmentDate'') \<or> truthy (map_of updates ''appointmentTime'')) \<and>
    orElse (map_of updates ''doctorId'') (map_of existing ''doctorId'') = Some d' \<and>
    orElse (map_of updates ''appointmentDate'') (map_of existing ''appointmentDate'') = Some dt' \<and>
    orElse (map_of updates ''appointmentTime'') (map_of existing ''appointmentTime'') = Some t' \<and>
    accepts env (Query ''Appointments'' [d', dt', t', JStr ident])"
  then show "fst (updateAppointment env ident updates tbl) = Inl ConflictError \<longleftrightarrow>
       hasConflict tbl d' dt' t' (Some ident)"
    by (intro update_conflict_iff[where existing = existing]) simp_all
qed

theorem conflict_check_any_status_witness:
  "hasConflict cancelledTable (JStr ''d1'') (JStr ''2024-01-15'') (JStr ''10:00'') (Some ''b2'') \<and>
   fst (createAppointment laterEnv bookingBody cancelledTable) = Inl ConflictError \<and>
   fst (updateAppointment laterEnv ''a1'' [(''appointmentTime'', JStr ''10:00'')] cancelledTable)
     \<noteq> Inl ConflictError"
proof -
  have found: "\<exists>it \<in> set cancelledTable.
      map_of it ''doctorId'' = Some (JStr ''d1'') \<and>
      map_of it ''appointmentDate'' = Some (JStr ''2024-01-15'') \<and>
      map_of it ''appointmentTime'' = Some (JStr ''10:00'') \<and>
      (\<forall>i. Some ''b2'' = Some i \<longrightarrow> map_of it ''appointmentId'' \<noteq> Some (JStr i))"
    by (simp add: cancelledTable_def)
  have hyp_create:
    "truthy (map_of bookingBody ''patientId'') \<and>
     map_of bookingBody ''doctorId'' = Some (JStr ''d1'') \<and> truthy (Some (JStr ''d1'')) \<and>
     map_of bookingBody ''appointmentDate'' = Some (JStr ''2024-01-15'') \<and>
     truthy (Some (JStr ''2024-01-15'')) \<and>
     map_of bookingBody ''appointmentTime'' = Some (JStr ''10:00'') \<and>
     truthy (Some (JStr ''10:00'')) \<and>
     accepts laterEnv (Query ''Appointments'' [JStr ''d1'', JStr ''2024-01-15'', JStr ''10:00''])"
    by (simp add: bookingBody_def laterEnv_def)
  have hyp_update:
    "accepts laterEnv (Get ''Appointments'' ''a1'') \<and>
     ddbGet cancelledTable ''a1'' = Some (hd cancelledTable) \<and>
     (truthy (map_of [(''appointmentTime'', JStr ''10:00'')] ''appointmentDate'') \<or>
      truthy (map_of [(''appointmentTime'', JStr ''10:00'')] ''appointmentTime'')) \<and>
     orElse (map_of [(''appointmentTime'', JStr ''10:00'')] ''doctorId'')
       (map_of (hd cancelledTable) ''doctorId'') = Some (JStr ''d1'') \<and>
     orElse (map_of [(''appointmentTime'', JStr ''10:00'')] ''appointmentDate'')
       (map_of (hd cancelledTable) ''appointmentDate'') = Some (JStr ''2024-01-15'') \<and>
     orElse (map_of [(''appointmentTime'', JStr ''10:00'')] ''appointmentTime'')
       (map_of (hd cancelledTable) ''appointmentTime'') = Some (JStr ''10:00'') \<and>
     accepts laterEnv
       (Query ''Appointments'' [JStr ''d1'', JStr ''2024-01-15'', JStr ''10:00'', JStr ''a1''])"
    by (simp add: cancelledTable_def laterEnv_def ddbGet_def orElse_def)
  have none: "\<not> hasConflict cancelledTable (JStr ''d1'') (JStr ''2024-01-15'') (JStr ''10:00'')
                 (Some ''a1'')"
    by (simp add: hasConflict_def conflictItems_def cancelledTable_def)
  note inst = conflict_check_any_status
    [of cancelledTable "JStr ''d1''" "JStr ''2024-01-15''" "JStr ''10:00''" "Some ''b2''"
        bookingBody "JStr ''d1''" "JStr ''2024-01-15''" "JStr ''10:00''" laterEnv
        "''a1''" "hd cancelledTable" "[(''appointmentTime'', JStr ''10:00'')]"
        "JStr ''d1''" "JStr ''2024-01-15''" "JStr ''10:00''"]
  have c1: "hasConflict cancelledTable (JStr ''d1'') (JStr ''2024-01-15'') (JStr ''10:00'')
              (Some ''b2'')"
    using conjunct1[OF inst] found by simp
  have c0: "hasConflict cancelledTable (JStr ''d1'') (JStr ''2024-01-15'') (JStr ''10:00'') None"
    by (simp add: hasConflict_def conflictItems_def cancelledTable_def)
  have c2: "fst (createAppointment laterEnv bookingBody cancelledTable) = Inl ConflictError"
    using conjunct1[OF conjunct2[OF inst]] hyp_create c0 by simp
  have c3: "fst (updateAppointment laterEnv ''a1'' [(''appointmentTime'', JStr ''10:00'')]
                   cancelledTable) \<noteq> Inl ConflictError"
    using conjunct2[OF conjunct2[OF inst]] hyp_update none by simp
  show ?thesis
    using c1 c2 c3 by simp
qed

text \<open>
  C1 as stated fails: after the booking of 10:00 is cancelled, no scheduled appointment
  holds that time, yet the check is true and a new booking of it is refused.
\<close>

theorem cancelled_conflict_counterexample:
  "cancelAppointment laterEnv ''a1'' [] bookedTable = (Inr (hd cancelledTable), cancelledTable) \<and>
   \<not> scheduledConflict cancelledTable (JStr ''d1'') (JStr ''2024-01-15'') (JStr ''10:00'') None \<and>
   hasConflict cancelledTable (JStr ''d1'') (JStr ''2024-01-15'') (JStr ''10:00'') None \<and>
   createAppointment laterEnv bookingBody cancelledTable = (Inl ConflictError, cancelledTable)"
proof -
  have "\<not> scheduledConflict cancelledTable (JStr ''d1'') (JStr ''2024-01-15'') (JStr ''10:00'') None"
    by (simp add: scheduledConflict_def cancelledTable_def)
  moreover have "hasConflict cancelledTable (JStr ''d1'') (JStr ''2024-01-15'') (JStr ''10:00'') None"
    by (simp add: hasConflict_def conflictItems_def cancelledTable_def)
  moreover have "createAppointment laterEnv bookingBody cancelledTable =
      (Inl ConflictError, cancelledTable)"
    by (simp add: createAppointment_def laterEnv_def bookingBody_def hasConflict_def
        conflictItems_def cancelledTable_def)
  ultimately show ?thesis
    using cancel_booking by simp
qed

section \<open>Availability and cancellation\<close>

lemma booked_times_set:
  "Some (JStr t) \<in> set (map (\<lambda>apt. map_of apt ''appointmentTime'') (slotsQuery tbl doctorId date)) \<longleftrightarrow>
     (\<exists>it \<in> set tbl.
        map_of it ''doctorId'' = Some (JStr doctorId) \<and>
        map_of it ''appointmentDate'' = Some (JStr date) \<and>
        map_of it ''appointmentTime'' = Some (JStr t))"
  unfolding slotsQuery_def by (auto simp: image_iff)

lemma getAvailableSlots_after_cancel:
  "getAvailableSlots env doctorId dateParam (snd (cancelAppointment env' ident body tbl)) doctors =
   getAvailableSlots env doctorId dateParam tbl doctors"
  unfolding getAvailableSlots_def
  by (simp only: cancel_keeps_booked_times)

lemma getAvailableSlots_grid:
  assumes "accepts env (Get ''Doctors'' doctorId)"
    and "accepts env (Query ''Appointments'' [JStr doctorId, JStr date])"
    and "map_of doctors doctorId = Some doc" and "workingHours doc = Some wh"
    and "newDate date (wh_start wh) = Some s" and "newDate date (wh_end wh) = Some e"
    and "d = effectiveSlotDuration (slotDuration doc)" and "0 < d"
  shows "getAvailableSlots env doctorId (Some date) tbl doctors =
     Some (Inr (slotsData date d
       (filter (\<lambda>t. \<not> (\<exists>it \<in> set tbl.
                          map_of it ''doctorId'' = Some (JStr doctorId) \<and>
                          map_of it ''appointmentDate'' = Some (JStr date) \<and>
                          map_of it ''appointmentTime'' = Some (JStr t)))
          (map (toLocaleTimeString (midnight24 env)) (candidates s e d)))))"
proof -
  have "date \<noteq> []"
    using assms(5) by (auto simp: newDate_def split: if_splits)
  moreover have "computeAvailableSlots (midnight24 env) wh (slotDuration doc)
      (map (\<lambda>apt. map_of apt ''appointmentTime'') (slotsQuery tbl doctorId date)) date =
    Some (filter (\<lambda>t. \<not> (\<exists>it \<in> set tbl.
                          map_of it ''doctorId'' = Some (JStr doctorId) \<and>
                          map_of it ''appointmentDate'' = Some (JStr date) \<and>
                          map_of it ''appointmentTime'' = Some (JStr t)))
          (map (toLocaleTimeString (midnight24 env)) (candidates s e d)))"
    using assms(5-8) computeAvailableSlots_grid[of date wh s e "slotDuration doc"]
    by (simp only: booked_times_set)
  ultimately show ?thesis
    using assms(1-4,7) by (simp add: getAvailableSlots_def)
qed

text \<open>
  C2, as the code has it. A candidate slot is left out exactly when its HH:MM value is the
  \<^verbatim>\<open>appointmentTime\<close> of some stored appointment of that doctor and date, whatever its
  status; and cancelling an appointment changes nothing in what a later call returns, so
  the cancelled time stays out.
\<close>

theorem slots_exclude_any_status:
  "(accepts env (Get ''Doctors'' doctorId) \<and>
    accepts env (Query ''Appointments'' [JStr doctorId, JStr date]) \<and>
    map_of doctors doctorId = Some doc \<and> workingHours doc = Some wh \<and>
    newDate date (wh_start wh) = Some s \<and> newDate date (wh_end wh) = Some e \<and>
    d = effectiveSlotDuration (slotDuration doc) \<and> 0 < d \<longrightarrow>
      getAvailableSlots env doctorId (Some date) tbl doctors =
        Some (Inr (slotsData date d
          (filter (\<lambda>t. \<not> (\<exists>it \<in> set tbl.
                             map_of it ''doctorId'' = Some (JStr doctorId) \<and>
                             map_of it ''appointmentDate'' = Some (JStr date) \<and>
                             map_of it ''appointmentTime'' = Some (JStr t)))
             (map (toLocaleTimeString (midnight24 env)) (candidates s e d)))))) \<and>
   getAvailableSlots env doctorId dateParam (snd (cancelAppointment env' ident body tbl)) doctors =
     getAvailableSlots env doctorId dateParam tbl doctors"
proof (intro conjI impI)
  assume "accepts env (Get ''Doctors'' doctorId) \<and>
    accepts env (Query ''Appointments'' [JStr doctorId, JStr date]) \<and>
    map_of doctors doctorId = Some doc \<and> workingHours doc = Some wh \<and>
    newDate date (wh_start wh) = Some s \<and> newDate date (wh_end wh) = Some e \<and>
    d = effectiveSlotDuration (slotDuration doc) \<and> 0 < d"
  then show "getAvailableSlots env doctorId (Some date) tbl doctors =
        Some (Inr (slotsData date d
          (filter (\<lambda>t. \<not> (\<exists>it \<in> set tbl.
                             map_of it ''doctorId'' = Some (JStr doctorId) \<and>
                             map_of it ''appointmentDate'' = Some (JStr date) \<and>
                             map_of it ''appointmentTime'' = Some (JStr t)))
             (map (toLocaleTimeString (midnight24 env)) (candidates s e d)))))"
    by (intro getAvailableSlots_grid[where doc = doc and wh = wh]) simp_all
next
  show "getAvailableSlots env doctorId dateParam (snd (cancelAppointment env' ident body tbl))
          doctors = getAvailableSlots env doctorId dateParam tbl doctors"
    by (rule getAvailableSlots_after_cancel)
qed

lemma staff_d1:
  "accepts clinicEnv (Get ''Doctors'' ''d1'') \<and>
   accepts clinicEnv (Query ''Appointments'' [JStr ''d1'', JStr ''2024-01-15'']) \<and>
   map_of staffTable ''d1'' =
     Some \<lparr> workingHours = Some \<lparr>wh_start = ''09:00'', wh_end = ''17:00''\<rparr>, slotDuration = Some 30 \<rparr> \<and>
   newDate ''2024-01-15'' ''09:00'' = Some 540 \<and> newDate ''2024-01-15'' ''17:00'' = Some 1020 \<and>
   effectiveSlotDuration (Some 30) = 30 \<and> midnight24 clinicEnv = False"
  by (simp add: clinicEnv_def staffTable_def newDate_def isDigit_def digitVal_def
      effectiveSlotDuration_def)

theorem slots_exclude_any_status_witness:
  "getAvailableSlots clinicEnv ''d1'' (Some ''2024-01-15'') bookedTable staffTable =
     Some (Inr (slotsData ''2024-01-15'' 30 tenTaken)) \<and>
   getAvailableSlots clinicEnv ''d1'' (Some ''2024-01-15'')
     (snd (cancelAppointment laterEnv ''a1'' [] bookedTable)) staffTable =
     Some (Inr (slotsData ''2024-01-15'' 30 tenTaken))"
proof -
  note inst = slots_exclude_any_status
    [of clinicEnv "''d1''" "''2024-01-15''" staffTable
        "\<lparr> workingHours = Some \<lparr>wh_start = ''09:00'', wh_end = ''17:00''\<rparr>, slotDuration = Some 30 \<rparr>"
        "\<lparr>wh_start = ''09:00'', wh_end = ''17:00''\<rparr>" 540 1020 30 bookedTable
        "Some ''2024-01-15''" laterEnv "''a1''" "[]"]
  have first: "getAvailableSlots clinicEnv ''d1'' (Some ''2024-01-15'') bookedTable staffTable =
     Some (Inr (slotsData ''2024-01-15'' 30
       (filter (\<lambda>t. \<not> (\<exists>it \<in> set bookedTable.
                          map_of it ''doctorId'' = Some (JStr ''d1'') \<and>
                          map_of it ''appointmentDate'' = Some (JStr ''2024-01-15'') \<and>
                          map_of it ''appointmentTime'' = Some (JStr t)))
          (map (toLocaleTimeString False) (candidates 540 1020 30)))))"
    using conjunct1[OF inst] staff_d1 by simp
  have list: "filter (\<lambda>t. \<not> (\<exists>it \<in> set bookedTable.
                          map_of it ''doctorId'' = Some (JStr ''d1'') \<and>
                          map_of it ''appointmentDate'' = Some (JStr ''2024-01-15'') \<and>
                          map_of it ''appointmentTime'' = Some (JStr t)))
          (map (toLocaleTimeString False) (candidates 540 1020 30)) = tenTaken"
    unfolding nineToFive_grid by (simp add: nineToFive_def bookedTable_def tenTaken_def)
  show ?thesis
    using first conjunct2[OF inst] unfolding list by simp
qed

text \<open>
  C2 as stated fails: the booking of 10:00 is cancelled, the only stored appointment of
  that doctor and date has status \<^verbatim>\<open>cancelled\<close>, and 10:00 is still missing from the
  available slots.
\<close>

theorem cancelled_slot_counterexample:
  "cancelAppointment laterEnv ''a1'' [] bookedTable = (Inr (hd cancelledTable), cancelledTable) \<and>
   map_of (hd cancelledTable) ''status'' = Some (JStr ''cancelled'') \<and>
   length cancelledTable = 1 \<and>
   getAvailableSlots clinicEnv ''d1'' (Some ''2024-01-15'') cancelledTable staffTable =
     Some (Inr (slotsData ''2024-01-15'' 30 tenTaken))"
proof -
  have "getAvailableSlots clinicEnv ''d1'' (Some ''2024-01-15'') cancelledTable staffTable =
     Some (Inr (slotsData ''2024-01-15'' 30
       (filter (\<lambda>t. \<not> (\<exists>it \<in> set cancelledTable.
                          map_of it ''doctorId'' = Some (JStr ''d1'') \<and>
                          map_of it ''appointmentDate'' = Some (JStr ''2024-01-15'') \<and>
                          map_of it ''appointmentTime'' = Some (JStr t)))
          (map (toLocaleTimeString (midnight24 clinicEnv)) (candidates 540 1020 30)))))"
    using staff_d1
    by (intro getAvailableSlots_grid
          [where doc = "\<lparr> workingHours = Some \<lparr>wh_start = ''09:00'', wh_end = ''17:00''\<rparr>,
                          slotDuration = Some 30 \<rparr>"
             and wh = "\<lparr>wh_start = ''09:00'', wh_end = ''17:00''\<rparr>"]) simp_all
  moreover have "filter (\<lambda>t. \<not> (\<exists>it \<in> set cancelledTable.
                          map_of it ''doctorId'' = Some (JStr ''d1'') \<and>
                          map_of it ''appointmentDate'' = Some (JStr ''2024-01-15'') \<and>
                          map_of it ''appointmentTime'' = Some (JStr t)))
          (map (toLocaleTimeString (midnight24 clinicEnv)) (candidates 540 1020 30)) = tenTaken"
    unfolding nineToFive_grid by (simp add: nineToFive_def cancelledTable_def tenTaken_def)
  ultimately show ?thesis
    using cancel_booking by (simp add: cancelledTable_def)
qed

section \<open>Cancelling what is not there\<close>

text \<open>
  C3 at a concrete input: no appointment \<^verbatim>\<open>zz\<close> is stored, and cancelling it answers with
  success and leaves a new record in the table.
\<close>

theorem cancel_missing_creates_record:
  "ddbGet bookedTable ''zz'' = None \<and>
   cancelAppointment laterEnv ''zz'' [] bookedTable =
     (Inr [(''appointmentId'', JStr ''zz''), (''status'', JStr ''cancelled''),
           (''cancellationReason'', JStr ''No reason provided''),
           (''updatedAt'', JStr ''2024-01-11T09:30:00.000Z'')],
      bookedTable @
        [[(''appointmentId'', JStr ''zz''), (''status'', JStr ''cancelled''),
          (''cancellationReason'', JStr ''No reason provided''),
          (''updatedAt'', JStr ''2024-01-11T09:30:00.000Z'')]])"
  by (simp add: cancelAppointment_def sendUpdate_def cancelCommand_def laterEnv_def
      bookedTable_def ddbUpdate_def resolvePath_def ddbGet_def setAttrs_def orElse_def Let_def)

section \<open>The update expression of updateAppointment\<close>

lemma foldl_update_other:
  "key \<notin> p ` fst ` set xs \<Longrightarrow>
   map_of (foldl (\<lambda>m (k, v). AList.update (p k) (q k v) m) m0 xs) key = map_of m0 key"
  by (induction xs arbitrary: m0) (auto simp: update_conv')

lemma foldl_update_hit:
  assumes "inj p" and "(k, v) \<in> set xs" and "\<forall>v'. (k, v') \<in> set xs \<longrightarrow> q k v' = q k v"
  shows "map_of (foldl (\<lambda>m (k, v). AList.update (p k) (q k v) m) m0 xs) (p k) = Some (q k v)"
  using assms(2,3)
proof (induction xs arbitrary: m0 v)
  case Nil
  then show ?case by simp
next
  case (Cons x xs)
  show ?case
  proof (cases "\<exists>v'. (k, v') \<in> set xs")
    case True
    then obtain v' where v': "(k, v') \<in> set xs"
      by blast
    with Cons.prems have same: "q k v' = q k v"
      by simp
    have "\<forall>w. (k, w) \<in> set xs \<longrightarrow> q k w = q k v'"
      using Cons.prems same by simp
    from Cons.IH[OF v' this] same show ?thesis
      by simp
  next
    case False
    then have out: "p k \<notin> p ` fst ` set xs"
      using assms(1) by (auto simp: inj_eq)
    from False Cons.prems have x: "x = (k, v)"
      by auto
    show ?thesis
      using foldl_update_other[OF out, of q] by (simp add: x update_conv')
  qed
qed

lemma inj_Cons: "inj ((#) c)"
  by (simp add: inj_def)

lemma resolveSets_all2:
  "resolveSets names vals expr = Some sets \<Longrightarrow>
   list_all2 (\<lambda>(p, v) (a, x). resolvePath names p = Some a \<and> map_of vals v = Some x) expr sets"
  by (induction expr arbitrary: sets) (auto split: option.splits)

lemma setAttrs_hit:
  assumes "distinct (map fst sets)" and "(k, v) \<in> set sets"
  shows "map_of (setAttrs sets it) k = Some v"
proof -
  have "\<forall>v'. (k, v') \<in> set sets \<longrightarrow> v' = v"
    using assms by (meson eq_key_imp_eq_value)
  from foldl_update_hit[of "\<lambda>k. k" k v sets "\<lambda>k v. v" it, OF _ assms(2) this]
  show ?thesis
    by (simp add: setAttrs_def)
qed

text \<open>
  When the store accepts the update expression built from a payload, the assignments are the
  fresh \<^verbatim>\<open>updatedAt\<close> followed by the payload's own pairs, identifier and creation time
  left out, and no attribute is assigned twice.
\<close>

lemma buildUpdate_sets:
  assumes "resolveSets (ExpressionAttributeNames (buildUpdate env ident updates))
             (ExpressionAttributeValues (buildUpdate env ident updates))
             (UpdateExpression (buildUpdate env ident updates)) = Some sets"
    and "distinct (map fst sets)"
  shows "sets = (''updatedAt'', JStr (now env 0)) #
                filter (\<lambda>(key, v). key \<noteq> ''appointmentId'' \<and> key \<noteq> ''createdAt'') updates"
proof -
  define kept where
    "kept = filter (\<lambda>(key, v). key \<noteq> ''appointmentId'' \<and> key \<noteq> ''createdAt'') updates"
  define names where
    "names = foldl (\<lambda>m (key, v). AList.update (CHR ''#'' # key) key m) [] kept"
  define vals where
    "vals = foldl (\<lambda>m (key, v). AList.update (CHR '':'' # key) v m)
              [('':updatedAt'', JStr (now env 0))] kept"
  have res: "resolveSets names vals
               ((''updatedAt'', '':updatedAt'') # map (\<lambda>(key, v). (CHR ''#'' # key, CHR '':'' # key)) kept)
             = Some sets"
    using assms(1) by (simp add: buildUpdate_def Let_def kept_def names_def vals_def)
  have name_of: "map_of names (CHR ''#'' # k) = Some k" if "(k, v) \<in> set kept" for k v
    unfolding names_def
    using foldl_update_hit[of "(#) CHR ''#''" k v kept "\<lambda>k v. k" "[]"] that inj_Cons
    by simp
  from resolveSets_all2[OF res] obtain x0 rest where
    sets: "sets = (''updatedAt'', x0) # rest"
    and x0: "map_of vals '':updatedAt'' = Some x0"
    and rest: "list_all2 (\<lambda>(p, v) (a, x). resolvePath names p = Some a \<and> map_of vals v = Some x)
                 (map (\<lambda>(key, v). (CHR ''#'' # key, CHR '':'' # key)) kept) rest"
    by (auto simp: list_all2_Cons1 resolvePath_def)
  have rest': "list_all2 (\<lambda>(k, v) (a, x). a = k \<and> map_of vals (CHR '':'' # k) = Some x) kept rest"
    using rest name_of
    by (auto simp: list_all2_map1 resolvePath_def elim!: list.rel_mono_strong)
  have keys: "map fst rest = map fst kept"
    using rest' by (induction kept rest rule: list_all2_induct) auto
  have dist: "distinct (map fst kept)" and fresh: "''updatedAt'' \<notin> fst ` set kept"
    using assms(2) keys unfolding sets by auto
  have val_of: "map_of vals (CHR '':'' # k) = Some v" if "(k, v) \<in> set kept" for k v
  proof -
    have "\<forall>v'. (k, v') \<in> set kept \<longrightarrow> v' = v"
      using dist that by (meson eq_key_imp_eq_value)
    from foldl_update_hit[of "(#) CHR '':''" k v kept "\<lambda>k v. v", OF inj_Cons that this]
    show ?thesis
      by (simp add: vals_def)
  qed
  have "list_all2 (=) kept rest"
    using rest' val_of by (auto elim!: list.rel_mono_strong)
  then have "rest = kept"
    unfolding list.rel_eq by simp
  moreover have "x0 = JStr (now env 0)"
  proof -
    have "'':updatedAt'' \<notin> (#) CHR '':'' ` fst ` set kept"
      using fresh by auto
    from foldl_update_other[OF this, of "\<lambda>k v. v"] x0 show ?thesis
      by (simp add: vals_def)
  qed
  ultimately show ?thesis
    by (simp add: sets kept_def)
qed

section \<open>Updating an appointment\<close>

lemma ddbGet_Some:
  "ddbGet tbl ident = Some it \<Longrightarrow> it \<in> set tbl \<and> map_of it ''appointmentId'' = Some (JStr ident)"
  unfolding ddbGet_def by (induction tbl) (auto split: if_splits)

lemma ddbGet_map:
  assumes "\<And>it. map_of (f it) ''appointmentId'' = map_of it ''appointmentId''"
  shows "ddbGet (map f tbl) i = map_option f (ddbGet tbl i)"
  unfolding ddbGet_def by (induction tbl) (simp_all add: assms)

lemma sendUpdate_success:
  assumes "sendUpdate env tbl command = (Inr attributes, tbl')"
  shows "ddbUpdate tbl command = Inr (attributes, tbl')"
  using assms by (auto simp: sendUpdate_def split: if_splits sum.splits prod.splits)

lemma update_success:
  assumes "updateAppointment env ident updates tbl = (Inr attributes, tbl')"
  shows "\<exists>existing. ddbGet tbl ident = Some existing \<and>
           distinct (map fst (updateSets env updates)) \<and>
           attributes = setAttrs (updateSets env updates) existing \<and>
           tbl' = map (\<lambda>it. if map_of it ''appointmentId'' = Some (JStr ident)
                             then setAttrs (updateSets env updates) it else it) tbl"
proof -
  from assms obtain existing where
    got: "ddbGet tbl ident = Some existing"
    and sent: "sendUpdate env tbl (buildUpdate env ident updates) = (Inr attributes, tbl')"
    by (auto simp: updateAppointment_def split: if_splits option.splits sum.splits bool.splits)
  let ?c = "buildUpdate env ident updates"
  have key: "Key ?c = ident"
    by (simp add: buildUpdate_def Let_def)
  from sendUpdate_success[OF sent] obtain sets where
    res: "resolveSets (ExpressionAttributeNames ?c) (ExpressionAttributeValues ?c)
            (UpdateExpression ?c) = Some sets"
    and dist: "distinct (map fst sets)"
    and out: "attributes = setAttrs sets existing"
      "tbl' = map (\<lambda>it. if map_of it ''appointmentId'' = Some (JStr ident)
                        then setAttrs sets it else it) tbl"
    using got by (auto simp: ddbUpdate_def key split: if_splits option.splits)
  have "sets = updateSets env updates"
    using buildUpdate_sets[OF res dist] by (simp add: updateSets_def)
  with got dist out show ?thesis
    by simp
qed

text \<open>
  C7. After a successful update the identifier and the creation time are what they were,
  whatever the payload says; every other property of the payload is stored; \<^verbatim>\<open>updatedAt\<close>
  is the time of the request; every attribute the payload does not name is what it was. The
  record read back is the one returned, and no other record has changed.
\<close>

theorem update_frame:
  "updateAppointment env ident updates tbl = (Inr attributes, tbl') \<longrightarrow>
     (\<exists>existing. ddbGet tbl ident = Some existing \<and>
        map_of attributes ''appointmentId'' = map_of existing ''appointmentId'' \<and>
        map_of attributes ''createdAt'' = map_of existing ''createdAt'' \<and>
        (\<forall>k. k \<notin> fst ` set updates \<and> k \<noteq> ''updatedAt'' \<longrightarrow>
             map_of attributes k = map_of existing k)) \<and>
     (\<forall>k v. (k, v) \<in> set updates \<and> k \<noteq> ''appointmentId'' \<and> k \<noteq> ''createdAt'' \<longrightarrow>
          map_of attributes k = Some v) \<and>
     map_of attributes ''updatedAt'' = Some (JStr (now env 0)) \<and>
     ddbGet tbl' ident = Some attributes \<and>
     (\<forall>i. i \<noteq> ident \<longrightarrow> ddbGet tbl' i = ddbGet tbl i)"
proof
  assume ok: "updateAppointment env ident updates tbl = (Inr attributes, tbl')"
  let ?S = "updateSets env updates"
  let ?f = "\<lambda>it. if map_of it ''appointmentId'' = Some (JStr ident) then setAttrs ?S it else it"
  from update_success[OF ok] obtain existing where
    got: "ddbGet tbl ident = Some existing"
    and dist: "distinct (map fst ?S)"
    and attrs: "attributes = setAttrs ?S existing"
    and tbl': "tbl' = map ?f tbl"
    by blast
  have keys: "fst ` set ?S \<subseteq> insert ''updatedAt'' (fst ` set updates) - {''appointmentId'', ''createdAt''}"
    by (auto simp: updateSets_def)
  have other: "map_of (setAttrs ?S it) k = map_of it k" if "k \<notin> fst ` set ?S" for it k
    using that by (rule map_of_setAttrs_other)
  have noid: "''appointmentId'' \<notin> fst ` set ?S" and nocr: "''createdAt'' \<notin> fst ` set ?S"
    by (auto simp: updateSets_def)
  have ident_kept: "map_of (?f it) ''appointmentId'' = map_of it ''appointmentId''" for it
    using other[OF noid, of it] by simp
  have frame: "\<forall>k. k \<notin> fst ` set updates \<and> k \<noteq> ''updatedAt'' \<longrightarrow>
      map_of attributes k = map_of existing k"
    using other keys unfolding attrs by blast
  have id0: "map_of attributes ''appointmentId'' = map_of existing ''appointmentId''"
    using other[OF noid, of existing] unfolding attrs by simp
  have cr0: "map_of attributes ''createdAt'' = map_of existing ''createdAt''"
    using other[OF nocr, of existing] unfolding attrs by simp
  have written: "\<forall>k v. (k, v) \<in> set updates \<and> k \<noteq> ''appointmentId'' \<and> k \<noteq> ''createdAt'' \<longrightarrow>
      map_of attributes k = Some v"
  proof (intro allI impI)
    fix k v
    assume "(k, v) \<in> set updates \<and> k \<noteq> ''appointmentId'' \<and> k \<noteq> ''createdAt''"
    then have "(k, v) \<in> set ?S"
      by (simp add: updateSets_def)
    from setAttrs_hit[OF dist this] show "map_of attributes k = Some v"
      by (simp add: attrs)
  qed
  have stamp: "map_of attributes ''updatedAt'' = Some (JStr (now env 0))"
    using setAttrs_hit[OF dist, of "''updatedAt''" "JStr (now env 0)" existing]
    by (simp add: attrs updateSets_def)
  have readback: "ddbGet tbl' ident = Some attributes"
    using ddbGet_map[of ?f tbl ident, OF ident_kept] got ddbGet_Some[OF got]
    by (simp add: tbl' attrs)
  have others: "\<forall>i. i \<noteq> ident \<longrightarrow> ddbGet tbl' i = ddbGet tbl i"
  proof (intro allI impI)
    fix i :: string
    assume ne: "i \<noteq> ident"
    show "ddbGet tbl' i = ddbGet tbl i"
    proof (cases "ddbGet tbl i")
      case None
      then show ?thesis
        using ddbGet_map[of ?f tbl i, OF ident_kept] by (simp add: tbl')
    next
      case (Some it)
      from ddbGet_Some[OF Some] ne have "?f it = it"
        by simp
      with Some show ?thesis
        using ddbGet_map[of ?f tbl i, OF ident_kept] by (simp add: tbl')
    qed
  qed
  from got id0 cr0 frame written stamp readback others
  show "(\<exists>existing. ddbGet tbl ident = Some existing \<and>
        map_of attributes ''appointmentId'' = map_of existing ''appointmentId'' \<and>
        map_of attributes ''createdAt'' = map_of existing ''createdAt'' \<and>
        (\<forall>k. k \<notin> fst ` set updates \<and> k \<noteq> ''updatedAt'' \<longrightarrow>
             map_of attributes k = map_of existing k)) \<and>
     (\<forall>k v. (k, v) \<in> set updates \<and> k \<noteq> ''appointmentId'' \<and> k \<noteq> ''createdAt'' \<longrightarrow>
          map_of attributes k = Some v) \<and>
     map_of attributes ''updatedAt'' = Some (JStr (now env 0)) \<and>
     ddbGet tbl' ident = Some attributes \<and>
     (\<forall>i. i \<noteq> ident \<longrightarrow> ddbGet tbl' i = ddbGet tbl i)"
    by blast
qed

lemma move_to_d2:
  "updateAppointment laterEnv ''a1'' [(''doctorId'', JStr ''d2'')] twoDoctors =
     (Inr (hd movedTable), movedTable)"
  by (simp add: updateAppointment_def updateConflictCheck_def sendUpdate_def buildUpdate_def
      laterEnv_def twoDoctors_def bookedTable_def movedTable_def ddbUpdate_def resolvePath_def
      ddbGet_def setAttrs_def Let_def)

text \<open>
  A payload that names \<^verbatim>\<open>updatedAt\<close> assigns that attribute twice; the store rejects the
  expression and the handler answers 500.
\<close>

lemma update_naming_updatedAt:
  "updateAppointment laterEnv ''a1'' [(''updatedAt'', JStr ''1999-01-01T00:00:00.000Z'')]
     bookedTable = (Inl StoreError, bookedTable)"
  by (simp add: updateAppointment_def updateConflictCheck_def sendUpdate_def buildUpdate_def
      laterEnv_def bookedTable_def ddbUpdate_def resolvePath_def ddbGet_def Let_def)

theorem update_frame_witness:
  "updateAppointment laterEnv ''a1'' renote bookedTable = (Inr (hd renotedTable), renotedTable) \<and>
   map_of (hd renotedTable) ''notes'' = Some (JStr ''bring x-rays'') \<and>
   map_of (hd renotedTable) ''updatedAt'' = Some (JStr (now laterEnv 0)) \<and>
   ddbGet renotedTable ''a1'' = Some (hd renotedTable)"
proof -
  have run: "updateAppointment laterEnv ''a1'' renote bookedTable =
      (Inr (hd renotedTable), renotedTable)"
    by (simp add: updateAppointment_def updateConflictCheck_def sendUpdate_def buildUpdate_def
        laterEnv_def renote_def bookedTable_def renotedTable_def ddbUpdate_def resolvePath_def
        ddbGet_def setAttrs_def Let_def)
  have "(''notes'', JStr ''bring x-rays'') \<in> set renote \<and> ''notes'' \<noteq> ''appointmentId'' \<and>
        ''notes'' \<noteq> ''createdAt''"
    by (simp add: renote_def)
  with run update_frame[of laterEnv "''a1''" renote bookedTable "hd renotedTable" renotedTable]
  show ?thesis
    by blast
qed

section \<open>The conflict check of an update\<close>

text \<open>
  C5, as the code has it. For an update of an existing appointment whose payload has a
  non-empty \<^verbatim>\<open>appointmentDate\<close> or \<^verbatim>\<open>appointmentTime\<close>, the conflict detector is run on
  the effective doctor, date and time with the record's own identifier excluded, before
  anything is written, and a collision makes the update fail with \<open>ConflictError\<close>. A
  payload with neither of the two, such as one that changes only \<^verbatim>\<open>doctorId\<close>, goes to
  the write with no conflict check.
\<close>

theorem update_conflict_guard:
  "accepts env (Get ''Appointments'' ident) \<and> ddbGet tbl ident = Some existing \<longrightarrow>
     ((truthy (map_of updates ''appointmentDate'') \<or> truthy (map_of updates ''appointmentTime'')) \<and>
      orElse (map_of updates ''doctorId'') (map_of existing ''doctorId'') = Some d \<and>
      orElse (map_of updates ''appointmentDate'') (map_of existing ''appointmentDate'') = Some dt \<and>
      orElse (map_of updates ''appointmentTime'') (map_of existing ''appointmentTime'') = Some t \<and>
      accepts env (Query ''Appointments'' [d, dt, t, JStr ident]) \<longrightarrow>
        updateAppointment env ident updates tbl =
          (if hasConflict tbl d dt t (Some ident) then (Inl ConflictError, tbl)
           else sendUpdate env tbl (buildUpdate env ident updates))) \<and>
     (\<not> truthy (map_of updates ''appointmentDate'') \<and>
      \<not> truthy (map_of updates ''appointmentTime'') \<longrightarrow>
        updateAppointment env ident updates tbl =
          sendUpdate env tbl (buildUpdate env ident updates))"
  by (simp add: updateAppointment_def updateConflictCheck_def)

theorem update_conflict_guard_witness:
  "updateAppointment laterEnv ''a1''
     [(''doctorId'', JStr ''d2''), (''appointmentTime'', JStr ''10:00'')] twoDoctors =
     (Inl ConflictError, twoDoctors) \<and>
   updateAppointment laterEnv ''a1'' [(''doctorId'', JStr ''d2'')] twoDoctors =
     sendUpdate laterEnv twoDoctors (buildUpdate laterEnv ''a1'' [(''doctorId'', JStr ''d2'')])"
proof -
  have got: "accepts laterEnv (Get ''Appointments'' ''a1'') \<and>
             ddbGet twoDoctors ''a1'' = Some (hd twoDoctors)"
    by (simp add: laterEnv_def twoDoctors_def bookedTable_def ddbGet_def)
  have checked:
    "(truthy (map_of [(''doctorId'', JStr ''d2''), (''appointmentTime'', JStr ''10:00'')]
                ''appointmentDate'') \<or>
      truthy (map_of [(''doctorId'', JStr ''d2''), (''appointmentTime'', JStr ''10:00'')]
                ''appointmentTime'')) \<and>
     orElse (map_of [(''doctorId'', JStr ''d2''), (''appointmentTime'', JStr ''10:00'')] ''doctorId'')
       (map_of (hd twoDoctors) ''doctorId'') = Some (JStr ''d2'') \<and>
     orElse (map_of [(''doctorId'', JStr ''d2''), (''appointmentTime'', JStr ''10:00'')]
               ''appointmentDate'')
       (map_of (hd twoDoctors) ''appointmentDate'') = Some (JStr ''2024-01-15'') \<and>
     orElse (map_of [(''doctorId'', JStr ''d2''), (''appointmentTime'', JStr ''10:00'')]
               ''appointmentTime'')
       (map_of (hd twoDoctors) ''appointmentTime'') = Some (JStr ''10:00'') \<and>
     accepts laterEnv
       (Query ''Appointments'' [JStr ''d2'', JStr ''2024-01-15'', JStr ''10:00'', JStr ''a1''])"
    by (simp add: laterEnv_def twoDoctors_def bookedTable_def orElse_def)
  have clash: "hasConflict twoDoctors (JStr ''d2'') (JStr ''2024-01-15'') (JStr ''10:00'')
                 (Some ''a1'')"
    by (simp add: hasConflict_def conflictItems_def twoDoctors_def bookedTable_def)
  have ungated:
    "\<not> truthy (map_of [(''doctorId'', JStr ''d2'')] ''appointmentDate'') \<and>
     \<not> truthy (map_of [(''doctorId'', JStr ''d2'')] ''appointmentTime'')"
    by simp
  have one: "updateAppointment laterEnv ''a1''
     [(''doctorId'', JStr ''d2''), (''appointmentTime'', JStr ''10:00'')] twoDoctors =
     (Inl ConflictError, twoDoctors)"
    using update_conflict_guard
      [of laterEnv "''a1''" twoDoctors "hd twoDoctors"
          "[(''doctorId'', JStr ''d2''), (''appointmentTime'', JStr ''10:00'')]"
          "JStr ''d2''" "JStr ''2024-01-15''" "JStr ''10:00''"]
      got checked clash
    by simp
  have two: "updateAppointment laterEnv ''a1'' [(''doctorId'', JStr ''d2'')] twoDoctors =
     sendUpdate laterEnv twoDoctors (buildUpdate laterEnv ''a1'' [(''doctorId'', JStr ''d2'')])"
    using update_conflict_guard
      [of laterEnv "''a1''" twoDoctors "hd twoDoctors" "[(''doctorId'', JStr ''d2'')]"
          "JStr ''d2''" "JStr ''2024-01-15''" "JStr ''10:00''"]
      got ungated
    by simp
  show ?thesis
    using one two by simp
qed

text \<open>
  C5 as stated fails when the payload changes only the doctor: doctor \<^verbatim>\<open>d2\<close> already has
  a scheduled appointment at that date and time, the update is written all the same, and
  two scheduled appointments then hold the slot.
\<close>

theorem doctor_only_update_counterexample:
  "scheduledConflict twoDoctors (JStr ''d2'') (JStr ''2024-01-15'') (JStr ''10:00'') (Some ''a1'') \<and>
   hasConflict twoDoctors (JStr ''d2'') (JStr ''2024-01-15'') (JStr ''10:00'') (Some ''a1'') \<and>
   updateAppointment laterEnv ''a1'' [(''doctorId'', JStr ''d2'')] twoDoctors =
     (Inr (hd movedTable), movedTable)"
proof -
  have "scheduledConflict twoDoctors (JStr ''d2'') (JStr ''2024-01-15'') (JStr ''10:00'')
          (Some ''a1'')"
    by (simp add: scheduledConflict_def twoDoctors_def bookedTable_def)
  moreover have "hasConflict twoDoctors (JStr ''d2'') (JStr ''2024-01-15'') (JStr ''10:00'')
          (Some ''a1'')"
    by (simp add: hasConflict_def conflictItems_def twoDoctors_def bookedTable_def)
  ultimately show ?thesis
    using move_to_d2 by simp
qed

text \<open>
  C6. An update that sets date and time to the values the appointment already has, and
  leaves it with its doctor, does not fail with \<open>ConflictError\<close> when the only stored
  appointment in that slot is the appointment itself: the query excludes its identifier.
\<close>

theorem update_own_slot:
  "ddbGet tbl ident = Some existing \<and>
   map_of updates ''appointmentDate'' = map_of existing ''appointmentDate'' \<and>
   map_of updates ''appointmentTime'' = map_of existing ''appointmentTime'' \<and>
   (map_of updates ''doctorId'' = None \<or>
    map_of updates ''doctorId'' = map_of existing ''doctorId'') \<and>
   (\<forall>it \<in> set tbl.
      map_of it ''doctorId'' = map_of existing ''doctorId'' \<and>
      map_of it ''appointmentDate'' = map_of existing ''appointmentDate'' \<and>
      map_of it ''appointmentTime'' = map_of existing ''appointmentTime'' \<longrightarrow>
      map_of it ''appointmentId'' = Some (JStr ident)) \<longrightarrow>
   fst (updateAppointment env ident updates tbl) \<noteq> Inl ConflictError"
proof
  assume a: "ddbGet tbl ident = Some existing \<and>
   map_of updates ''appointmentDate'' = map_of existing ''appointmentDate'' \<and>
   map_of updates ''appointmentTime'' = map_of existing ''appointmentTime'' \<and>
   (map_of updates ''doctorId'' = None \<or>
    map_of updates ''doctorId'' = map_of existing ''doctorId'') \<and>
   (\<forall>it \<in> set tbl.
      map_of it ''doctorId'' = map_of existing ''doctorId'' \<and>
      map_of it ''appointmentDate'' = map_of existing ''appointmentDate'' \<and>
      map_of it ''appointmentTime'' = map_of existing ''appointmentTime'' \<longrightarrow>
      map_of it ''appointmentId'' = Some (JStr ident))"
  have eff: "orElse (map_of updates ''doctorId'') (map_of existing ''doctorId'') =
               map_of existing ''doctorId''"
    "orElse (map_of updates ''appointmentDate'') (map_of existing ''appointmentDate'') =
               map_of existing ''appointmentDate''"
    "orElse (map_of updates ''appointmentTime'') (map_of existing ''appointmentTime'') =
               map_of existing ''appointmentTime''"
    using a by (auto simp: orElse_def)
  have free: "\<not> hasConflict tbl d dt t (Some ident)"
    if "map_of existing ''doctorId'' = Some d" "map_of existing ''appointmentDate'' = Some dt"
      "map_of existing ''appointmentTime'' = Some t" for d dt t
    using a that by (auto simp: hasConflict_def conflictItems_def filter_empty_conv)
  have "updateConflictCheck env ident updates existing tbl \<noteq> Inr True"
    unfolding updateConflictCheck_def eff using free
    by (auto split: option.splits)
  moreover have "e = StoreError" if "updateConflictCheck env ident updates existing tbl = Inl e" for e
    using that by (auto simp: updateConflictCheck_def split: if_splits option.splits)
  ultimately have "updateAppointment env ident updates tbl = (Inl StoreError, tbl) \<or>
      updateAppointment env ident updates tbl = sendUpdate env tbl (buildUpdate env ident updates)"
    using a by (cases "updateConflictCheck env ident updates existing tbl")
      (auto simp: updateAppointment_def)
  then show "fst (updateAppointment env ident updates tbl) \<noteq> Inl ConflictError"
    using sendUpdate_error[of env tbl "buildUpdate env ident updates" ConflictError]
    by auto
qed

theorem update_own_slot_witness:
  "fst (updateAppointment laterEnv ''a1''
          [(''appointmentDate'', JStr ''2024-01-15''), (''appointmentTime'', JStr ''10:00'')]
          bookedTable) \<noteq> Inl ConflictError"
proof -
  have "ddbGet bookedTable ''a1'' = Some (hd bookedTable) \<and>
   map_of [(''appointmentDate'', JStr ''2024-01-15''), (''appointmentTime'', JStr ''10:00'')]
     ''appointmentDate'' = map_of (hd bookedTable) ''appointmentDate'' \<and>
   map_of [(''appointmentDate'', JStr ''2024-01-15''), (''appointmentTime'', JStr ''10:00'')]
     ''appointmentTime'' = map_of (hd bookedTable) ''appointmentTime'' \<and>
   (map_of [(''appointmentDate'', JStr ''2024-01-15''), (''appointmentTime'', JStr ''10:00'')]
      ''doctorId'' = None \<or>
    map_of [(''appointmentDate'', JStr ''2024-01-15''), (''appointmentTime'', JStr ''10:00'')]
      ''doctorId'' = map_of (hd bookedTable) ''doctorId'') \<and>
   (\<forall>it \<in> set bookedTable.
      map_of it ''doctorId'' = map_of (hd bookedTable) ''doctorId'' \<and>
      map_of it ''appointmentDate'' = map_of (hd bookedTable) ''appointmentDate'' \<and>
      map_of it ''appointmentTime'' = map_of (hd bookedTable) ''appointmentTime'' \<longrightarrow>
      map_of it ''appointmentId'' = Some (JStr ''a1''))"
    by (simp add: bookedTable_def ddbGet_def)
  then show ?thesis
    using update_own_slot
      [of bookedTable "''a1''" "hd bookedTable"
          "[(''appointmentDate'', JStr ''2024-01-15''), (''appointmentTime'', JStr ''10:00'')]"
          laterEnv]
    by blast
qed

section \<open>Schedule aggregation\<close>

lemma organizeSchedule_lookup:
  "organizeSchedule xs acc = Inr s \<Longrightarrow>
   map_of s d =
     (if filter (\<lambda>it. map_of it ''appointmentDate'' = Some (JStr d)) xs = [] then map_of acc d
      else Some ((case map_of acc d of None \<Rightarrow> [] | Some l \<Rightarrow> l) @
                 filter (\<lambda>it. map_of it ''appointmentDate'' = Some (JStr d)) xs))"
proof (induction xs arbitrary: acc)
  case Nil
  then show ?case by simp
next
  case (Cons x xs)
  from Cons.prems obtain dx where dx: "map_of x ''appointmentDate'' = Some (JStr dx)"
    by (auto split: option.splits jsval.splits)
  let ?acc' = "AList.update dx ((case map_of acc dx of None \<Rightarrow> [] | Some l \<Rightarrow> l) @ [x]) acc"
  from Cons.prems dx have run: "organizeSchedule xs ?acc' = Inr s"
    by (auto split: option.splits if_splits)
  show ?case
    using Cons.IH[OF run] dx
    by (cases "d = dx") (auto simp: update_conv' split: option.splits)
qed

lemma organizeSchedule_distinct:
  "organizeSchedule xs acc = Inr s \<Longrightarrow> distinct (map fst acc) \<Longrightarrow> distinct (map fst s)"
proof (induction xs arbitrary: acc)
  case Nil
  then show ?case by simp
next
  case (Cons x xs)
  then show ?case
    by (auto split: option.splits jsval.splits if_splits simp: distinct_update)
qed

lemma organizeSchedule_total:
  "\<forall>it \<in> set xs. \<exists>d. map_of it ''appointmentDate'' = Some (JStr d) \<and> d \<notin> set objectPrototypeKeys \<Longrightarrow>
   \<exists>s. organizeSchedule xs acc = Inr s"
proof (induction xs arbitrary: acc)
  case Nil
  then show ?case by simp
next
  case (Cons x xs)
  then show ?case
    by (auto split: option.splits)
qed

lemma scheduleItems_on_date:
  "filter (\<lambda>it. map_of it ''appointmentDate'' = Some (JStr d))
     (scheduleItems tbl ident startDate endDate) =
   filter (\<lambda>it. map_of it ''doctorId'' = Some (JStr ident) \<and>
                 map_of it ''appointmentDate'' = Some (JStr d) \<and>
                 startDate \<le> d \<and> d \<le> endDate) tbl"
  unfolding scheduleItems_def filter_filter
  by (rule filter_cong) (auto split: option.splits jsval.splits)

text \<open>
  C8, as the code has it. For an existing doctor and two present bounds with
  \<open>startDate \<le> endDate\<close>, when the store answers and no appointment in the range is dated
  by a name that \<^verbatim>\<open>Object.prototype\<close> defines, the handler returns a mapping whose keys are
  distinct and which, for every date, holds under that date exactly the doctor's
  appointments of that date within the bounds, of any status, in the order of the query's
  answer; a date with no such appointment is not a key. For present bounds with
  \<open>startDate\<close> above \<open>endDate\<close> no mapping is returned: the query is refused and the
  handler answers with the 500 error.
\<close>

theorem schedule_groups_by_date:
  "(startDate \<noteq> [] \<and> endDate \<noteq> [] \<and> startDate \<le> endDate \<and>
    accepts env (Query ''Appointments'' [JStr ident, JStr startDate, JStr endDate]) \<and>
    accepts env (Get ''Doctors'' ident) \<and> map_of doctors ident = Some doc \<and>
    (\<forall>it \<in> set (scheduleItems tbl ident startDate endDate).
       \<forall>d. map_of it ''appointmentDate'' = Some (JStr d) \<longrightarrow> d \<notin> set objectPrototypeKeys) \<longrightarrow>
    (\<exists>resp. getDoctorSchedule env ident (Some startDate) (Some endDate) tbl doctors = Inr resp \<and>
       distinct (map fst (appointments resp)) \<and>
       (\<forall>d. map_of (appointments resp) d =
          (if filter (\<lambda>it. map_of it ''doctorId'' = Some (JStr ident) \<and>
                            map_of it ''appointmentDate'' = Some (JStr d) \<and>
                            startDate \<le> d \<and> d \<le> endDate) tbl = []
           then None
           else Some (filter (\<lambda>it. map_of it ''doctorId'' = Some (JStr ident) \<and>
                                    map_of it ''appointmentDate'' = Some (JStr d) \<and>
                                    startDate \<le> d \<and> d \<le> endDate) tbl))))) \<and>
   (startDate \<noteq> [] \<and> endDate \<noteq> [] \<and> endDate < startDate \<longrightarrow>
      getDoctorSchedule env ident (Some startDate) (Some endDate) tbl doctors = Inl StoreError \<and>
      httpStatus StoreError = 500)"
proof (intro conjI impI)
  assume a: "startDate \<noteq> [] \<and> endDate \<noteq> [] \<and> startDate \<le> endDate \<and>
    accepts env (Query ''Appointments'' [JStr ident, JStr startDate, JStr endDate]) \<and>
    accepts env (Get ''Doctors'' ident) \<and> map_of doctors ident = Some doc \<and>
    (\<forall>it \<in> set (scheduleItems tbl ident startDate endDate).
       \<forall>d. map_of it ''appointmentDate'' = Some (JStr d) \<longrightarrow> d \<notin> set objectPrototypeKeys)"
  let ?q = "scheduleItems tbl ident startDate endDate"
  from a have "startDate \<le> endDate"
    by simp
  then have "\<not> endDate < startDate"
    by (simp add: not_less)
  then have answered: "scheduleQuery tbl ident startDate endDate = Inr ?q"
    by (simp add: scheduleQuery_def)
  have dated: "\<forall>it \<in> set ?q. \<exists>d. map_of it ''appointmentDate'' = Some (JStr d) \<and>
      d \<notin> set objectPrototypeKeys"
  proof
    fix it assume it: "it \<in> set ?q"
    then obtain d where "map_of it ''appointmentDate'' = Some (JStr d)"
      by (auto simp: scheduleItems_def split: option.splits jsval.splits)
    with a it show "\<exists>d. map_of it ''appointmentDate'' = Some (JStr d) \<and>
        d \<notin> set objectPrototypeKeys"
      by blast
  qed
  from organizeSchedule_total[OF dated, of "[]"] obtain s where s: "organizeSchedule ?q [] = Inr s"
    by blast
  let ?resp = "\<lparr> sworkingHours = workingHours doc, sslotDuration = slotDuration doc,
                 appointments = s \<rparr>"
  have run: "getDoctorSchedule env ident (Some startDate) (Some endDate) tbl doctors = Inr ?resp"
    using a s answered by (simp add: getDoctorSchedule_def)
  have keys: "distinct (map fst (appointments ?resp))"
    using organizeSchedule_distinct[OF s] by simp
  have groups: "\<forall>d. map_of (appointments ?resp) d =
         (if filter (\<lambda>it. map_of it ''doctorId'' = Some (JStr ident) \<and>
                           map_of it ''appointmentDate'' = Some (JStr d) \<and>
                           startDate \<le> d \<and> d \<le> endDate) tbl = []
          then None
          else Some (filter (\<lambda>it. map_of it ''doctorId'' = Some (JStr ident) \<and>
                                   map_of it ''appointmentDate'' = Some (JStr d) \<and>
                                   startDate \<le> d \<and> d \<le> endDate) tbl))"
    using organizeSchedule_lookup[OF s] by (simp add: scheduleItems_on_date)
  from run keys groups
  show "\<exists>resp. getDoctorSchedule env ident (Some startDate) (Some endDate) tbl doctors = Inr resp \<and>
       distinct (map fst (appointments resp)) \<and>
       (\<forall>d. map_of (appointments resp) d =
          (if filter (\<lambda>it. map_of it ''doctorId'' = Some (JStr ident) \<and>
                            map_of it ''appointmentDate'' = Some (JStr d) \<and>
                            startDate \<le> d \<and> d \<le> endDate) tbl = []
           then None
           else Some (filter (\<lambda>it. map_of it ''doctorId'' = Some (JStr ident) \<and>
                                    map_of it ''appointmentDate'' = Some (JStr d) \<and>
                                    startDate \<le> d \<and> d \<le> endDate) tbl)))"
    by blast
next
  assume "startDate \<noteq> [] \<and> endDate \<noteq> [] \<and> endDate < startDate"
  then show "getDoctorSchedule env ident (Some startDate) (Some endDate) tbl doctors =
      Inl StoreError"
    by (simp add: getDoctorSchedule_def scheduleQuery_def)
next
  show "httpStatus StoreError = 500"
    by simp
qed

theorem schedule_groups_by_date_witness:
  "(\<exists>resp. getDoctorSchedule clinicEnv ''d1'' (Some ''2024-01-15'') (Some ''2024-01-16'')
             weekTable staffTable = Inr resp \<and>
      map_of (appointments resp) ''2024-01-15'' = Some [weekTable ! 0, weekTable ! 2] \<and>
      map_of (appointments resp) ''2024-01-16'' = Some [weekTable ! 3] \<and>
      map_of (appointments resp) ''2024-01-20'' = None) \<and>
   getDoctorSchedule clinicEnv ''d1'' (Some ''2024-01-20'') (Some ''2024-01-15'')
     weekTable staffTable = Inl StoreError"
proof -
  have hyp: "''2024-01-15'' \<noteq> [] \<and> ''2024-01-16'' \<noteq> [] \<and>
     (''2024-01-15'' :: string) \<le> ''2024-01-16'' \<and>
     accepts clinicEnv
       (Query ''Appointments'' [JStr ''d1'', JStr ''2024-01-15'', JStr ''2024-01-16'']) \<and>
     accepts clinicEnv (Get ''Doctors'' ''d1'') \<and>
     map_of staffTable ''d1'' =
       Some \<lparr> workingHours = Some \<lparr>wh_start = ''09:00'', wh_end = ''17:00''\<rparr>,
              slotDuration = Some 30 \<rparr> \<and>
     (\<forall>it \<in> set (scheduleItems weekTable ''d1'' ''2024-01-15'' ''2024-01-16'').
        \<forall>d. map_of it ''appointmentDate'' = Some (JStr d) \<longrightarrow> d \<notin> set objectPrototypeKeys)"
    by (simp add: clinicEnv_def staffTable_def scheduleItems_def weekTable_def
        objectPrototypeKeys_def)
  note inst = schedule_groups_by_date
    [where startDate = "''2024-01-15''" and endDate = "''2024-01-16''" and env = clinicEnv
       and ident = "''d1''" and doctors = staffTable and tbl = weekTable
       and doc = "\<lparr> workingHours = Some \<lparr>wh_start = ''09:00'', wh_end = ''17:00''\<rparr>,
                     slotDuration = Some 30 \<rparr>"]
  from mp[OF conjunct1[OF inst] hyp]
  obtain resp where
    all: "getDoctorSchedule clinicEnv ''d1'' (Some ''2024-01-15'') (Some ''2024-01-16'')
            weekTable staffTable = Inr resp \<and>
       distinct (map fst (appointments resp)) \<and>
       (\<forall>d. map_of (appointments resp) d =
         (if filter (\<lambda>it. map_of it ''doctorId'' = Some (JStr ''d1'') \<and>
                           map_of it ''appointmentDate'' = Some (JStr d) \<and>
                           ''2024-01-15'' \<le> d \<and> d \<le> ''2024-01-16'') weekTable = []
          then None
          else Some (filter (\<lambda>it. map_of it ''doctorId'' = Some (JStr ''d1'') \<and>
                                   map_of it ''appointmentDate'' = Some (JStr d) \<and>
                                   ''2024-01-15'' \<le> d \<and> d \<le> ''2024-01-16'') weekTable)))"
    by (rule exE)
  then have run: "getDoctorSchedule clinicEnv ''d1'' (Some ''2024-01-15'') (Some ''2024-01-16'')
            weekTable staffTable = Inr resp"
    and groups: "\<And>d. map_of (appointments resp) d =
         (if filter (\<lambda>it. map_of it ''doctorId'' = Some (JStr ''d1'') \<and>
                           map_of it ''appointmentDate'' = Some (JStr d) \<and>
                           ''2024-01-15'' \<le> d \<and> d \<le> ''2024-01-16'') weekTable = []
          then None
          else Some (filter (\<lambda>it. map_of it ''doctorId'' = Some (JStr ''d1'') \<and>
                                   map_of it ''appointmentDate'' = Some (JStr d) \<and>
                                   ''2024-01-15'' \<le> d \<and> d \<le> ''2024-01-16'') weekTable))"
    by simp_all
  have g1: "map_of (appointments resp) ''2024-01-15'' = Some [weekTable ! 0, weekTable ! 2]"
    unfolding groups by (simp add: weekTable_def)
  have g2: "map_of (appointments resp) ''2024-01-16'' = Some [weekTable ! 3]"
    unfolding groups by (simp add: weekTable_def)
  have g3: "map_of (appointments resp) ''2024-01-20'' = None"
    unfolding groups by (simp add: weekTable_def)
  have rev_hyp: "''2024-01-20'' \<noteq> [] \<and> ''2024-01-15'' \<noteq> [] \<and>
      (''2024-01-15'' :: string) < ''2024-01-20''"
    by simp
  note inst2 = schedule_groups_by_date
    [where startDate = "''2024-01-20''" and endDate = "''2024-01-15''" and env = clinicEnv
       and ident = "''d1''" and doctors = staffTable and tbl = weekTable]
  have refused: "getDoctorSchedule clinicEnv ''d1'' (Some ''2024-01-20'') (Some ''2024-01-15'')
     weekTable staffTable = Inl StoreError"
    using mp[OF conjunct2[OF inst2] rev_hyp] by simp
  from run g1 g2 g3 have "\<exists>resp. getDoctorSchedule clinicEnv ''d1'' (Some ''2024-01-15'')
             (Some ''2024-01-16'') weekTable staffTable = Inr resp \<and>
      map_of (appointments resp) ''2024-01-15'' = Some [weekTable ! 0, weekTable ! 2] \<and>
      map_of (appointments resp) ''2024-01-16'' = Some [weekTable ! 3] \<and>
      map_of (appointments resp) ''2024-01-20'' = None"
    by blast
  with refused show ?thesis
    by simp
qed

text \<open>
  C8 as stated fails for present bounds in the wrong order: the doctor exists, both bounds
  are given, and the answer is the 500 error instead of a mapping.
\<close>

theorem reversed_bounds_counterexample:
  "map_of staffTable ''d1'' =
     Some \<lparr> workingHours = Some \<lparr>wh_start = ''09:00'', wh_end = ''17:00''\<rparr>,
            slotDuration = Some 30 \<rparr> \<and>
   getDoctorSchedule clinicEnv ''d1'' (Some ''2024-01-16'') (Some ''2024-01-15'')
     weekTable staffTable = Inl StoreError"
  by (simp add: staffTable_def getDoctorSchedule_def scheduleQuery_def clinicEnv_def)

section \<open>Creating an appointment\<close>

lemma map_of_optAttr: "map_of (optAttr k v) k' = (if k' = k then v else None)"
  by (simp add: optAttr_def split: option.splits)

lemma newAppointment_attrs:
  "map_of (newAppointment env body) k =
     (if k = ''appointmentId'' then Some (JStr (uuidv4 env))
      else if k \<in> {''patientId'', ''doctorId'', ''appointmentDate'', ''appointmentTime'',
                    ''appointmentType'', ''notes''} then map_of body k
      else if k = ''status'' then Some (JStr ''scheduled'')
      else if k = ''createdAt'' then Some (JStr (now env 0))
      else if k = ''updatedAt'' then Some (JStr (now env 1))
      else None)"
  unfolding newAppointment_def
  by (simp add: map_add_def map_of_optAttr split: option.splits)

lemma ddbGet_ddbPut:
  assumes "map_of a ''appointmentId'' = Some (JStr i)"
  shows "ddbGet (ddbPut tbl a) i = Some a"
proof (cases "\<exists>it \<in> set tbl. map_of it ''appointmentId'' = Some (JStr i)")
  case True
  have "find (\<lambda>it. map_of it ''appointmentId'' = Some (JStr i))
          (map (\<lambda>it. if map_of it ''appointmentId'' = Some (JStr i) then a else it) xs) = Some a"
    if "\<exists>it \<in> set xs. map_of it ''appointmentId'' = Some (JStr i)" for xs
    using that assms by (induction xs) auto
  with True show ?thesis
    by (simp add: ddbPut_def ddbGet_def assms)
next
  case False
  have "find (\<lambda>it. map_of it ''appointmentId'' = Some (JStr i)) (xs @ [a]) = Some a"
    if "\<forall>it \<in> set xs. map_of it ''appointmentId'' \<noteq> Some (JStr i)" for xs
    using that assms by (induction xs) auto
  with False show ?thesis
    by (simp add: ddbPut_def ddbGet_def assms)
qed

lemma ddbPut_fresh:
  assumes "map_of a ''appointmentId'' = Some (JStr i)" and "ddbGet tbl i = None"
  shows "ddbPut tbl a = tbl @ [a]"
  using assms by (auto simp: ddbPut_def ddbGet_def find_None_iff)

text \<open>
  C9. A Create request in which one of \<^verbatim>\<open>patientId\<close>, \<^verbatim>\<open>doctorId\<close>,
  \<^verbatim>\<open>appointmentDate\<close>, \<^verbatim>\<open>appointmentTime\<close> is missing or empty (falsy) fails with
  \<open>ValidationError\<close>, status 400, and the table is as before. When the four are present, the
  conflict check finds nothing and the store takes the write, the answer is a record with
  the new identifier, status \<^verbatim>\<open>scheduled\<close>, both time stamps and the payload's fields,
  and the table holds it under that identifier; when the identifier was not in use, the
  table is the old one with the record added.
\<close>

theorem create_validates_and_persists:
  "(\<not> truthy (map_of body ''patientId'') \<or> \<not> truthy (map_of body ''doctorId'') \<or>
    \<not> truthy (map_of body ''appointmentDate'') \<or> \<not> truthy (map_of body ''appointmentTime'') \<longrightarrow>
      createAppointment env body tbl = (Inl ValidationError, tbl) \<and>
      httpStatus ValidationError = 400) \<and>
   (truthy (map_of body ''patientId'') \<and>
    map_of body ''doctorId'' = Some d \<and> truthy (Some d) \<and>
    map_of body ''appointmentDate'' = Some dt \<and> truthy (Some dt) \<and>
    map_of body ''appointmentTime'' = Some t \<and> truthy (Some t) \<and>
    accepts env (Query ''Appointments'' [d, dt, t]) \<and>
    \<not> hasConflict tbl d dt t None \<and>
    accepts env (Put ''Appointments'' (newAppointment env body)) \<longrightarrow>
      (\<exists>a. createAppointment env body tbl = (Inr a, ddbPut tbl a) \<and>
         map_of a ''appointmentId'' = Some (JStr (uuidv4 env)) \<and>
         map_of a ''status'' = Some (JStr ''scheduled'') \<and>
         map_of a ''createdAt'' = Some (JStr (now env 0)) \<and>
         map_of a ''updatedAt'' = Some (JStr (now env 1)) \<and>
         (\<forall>k \<in> {''patientId'', ''doctorId'', ''appointmentDate'', ''appointmentTime'',
                  ''appointmentType'', ''notes''}. map_of a k = map_of body k) \<and>
         ddbGet (ddbPut tbl a) (uuidv4 env) = Some a \<and>
         (ddbGet tbl (uuidv4 env) = None \<longrightarrow> ddbPut tbl a = tbl @ [a])))"
proof (intro conjI impI)
  assume "\<not> truthy (map_of body ''patientId'') \<or> \<not> truthy (map_of body ''doctorId'') \<or>
    \<not> truthy (map_of body ''appointmentDate'') \<or> \<not> truthy (map_of body ''appointmentTime'')"
  then show "createAppointment env body tbl = (Inl ValidationError, tbl)"
    by (auto simp: createAppointment_def)
next
  show "httpStatus ValidationError = 400"
    by simp
next
  assume a: "truthy (map_of body ''patientId'') \<and>
    map_of body ''doctorId'' = Some d \<and> truthy (Some d) \<and>
    map_of body ''appointmentDate'' = Some dt \<and> truthy (Some dt) \<and>
    map_of body ''appointmentTime'' = Some t \<and> truthy (Some t) \<and>
    accepts env (Query ''Appointments'' [d, dt, t]) \<and>
    \<not> hasConflict tbl d dt t None \<and>
    accepts env (Put ''Appointments'' (newAppointment env body))"
  let ?a = "newAppointment env body"
  have run: "createAppointment env body tbl = (Inr ?a, ddbPut tbl ?a)"
    using a by (simp add: createAppointment_def)
  have key: "map_of ?a ''appointmentId'' = Some (JStr (uuidv4 env))"
    by (simp add: newAppointment_attrs)
  have fields: "\<forall>k \<in> {''patientId'', ''doctorId'', ''appointmentDate'', ''appointmentTime'',
                  ''appointmentType'', ''notes''}. map_of ?a k = map_of body k"
    by (simp add: newAppointment_attrs)
  have "createAppointment env body tbl = (Inr ?a, ddbPut tbl ?a) \<and>
         map_of ?a ''appointmentId'' = Some (JStr (uuidv4 env)) \<and>
         map_of ?a ''status'' = Some (JStr ''scheduled'') \<and>
         map_of ?a ''createdAt'' = Some (JStr (now env 0)) \<and>
         map_of ?a ''updatedAt'' = Some (JStr (now env 1)) \<and>
         (\<forall>k \<in> {''patientId'', ''doctorId'', ''appointmentDate'', ''appointmentTime'',
                  ''appointmentType'', ''notes''}. map_of ?a k = map_of body k) \<and>
         ddbGet (ddbPut tbl ?a) (uuidv4 env) = Some ?a \<and>
         (ddbGet tbl (uuidv4 env) = None \<longrightarrow> ddbPut tbl ?a = tbl @ [?a])"
    using run key fields ddbGet_ddbPut[OF key, of tbl] ddbPut_fresh[OF key, of tbl]
    by (simp add: newAppointment_attrs)
  then show "\<exists>a. createAppointment env body tbl = (Inr a, ddbPut tbl a) \<and>
         map_of a ''appointmentId'' = Some (JStr (uuidv4 env)) \<and>
         map_of a ''status'' = Some (JStr ''scheduled'') \<and>
         map_of a ''createdAt'' = Some (JStr (now env 0)) \<and>
         map_of a ''updatedAt'' = Some (JStr (now env 1)) \<and>
         (\<forall>k \<in> {''patientId'', ''doctorId'', ''appointmentDate'', ''appointmentTime'',
                  ''appointmentType'', ''notes''}. map_of a k = map_of body k) \<and>
         ddbGet (ddbPut tbl a) (uuidv4 env) = Some a \<and>
         (ddbGet tbl (uuidv4 env) = None \<longrightarrow> ddbPut tbl a = tbl @ [a])"
    by (rule exI)
qed

theorem create_validates_and_persists_witness:
  "createAppointment clinicEnv noDoctor bookedTable = (Inl ValidationError, bookedTable) \<and>
   (\<exists>a. createAppointment laterEnv bookingBody twoDoctors = (Inl ConflictError, twoDoctors) \<and>
      createAppointment clinicEnv bookingBody [] = (Inr a, [a]) \<and>
      map_of a ''appointmentId'' = Some (JStr ''a1'') \<and>
      map_of a ''status'' = Some (JStr ''scheduled'') \<and>
      map_of a ''notes'' = Some (JStr ''first visit''))"
proof -
  have miss: "\<not> truthy (map_of noDoctor ''patientId'') \<or> \<not> truthy (map_of noDoctor ''doctorId'') \<or>
      \<not> truthy (map_of noDoctor ''appointmentDate'') \<or>
      \<not> truthy (map_of noDoctor ''appointmentTime'')"
    by (simp add: noDoctor_def)
  have one: "createAppointment clinicEnv noDoctor bookedTable = (Inl ValidationError, bookedTable)"
    using conjunct1[OF create_validates_and_persists
        [where body = noDoctor and env = clinicEnv and tbl = bookedTable]] miss
    by blast
  have clash: "createAppointment laterEnv bookingBody twoDoctors = (Inl ConflictError, twoDoctors)"
    by (simp add: createAppointment_def laterEnv_def bookingBody_def hasConflict_def
        conflictItems_def twoDoctors_def bookedTable_def)
  have ok: "truthy (map_of bookingBody ''patientId'') \<and>
      map_of bookingBody ''doctorId'' = Some (JStr ''d1'') \<and> truthy (Some (JStr ''d1'')) \<and>
      map_of bookingBody ''appointmentDate'' = Some (JStr ''2024-01-15'') \<and>
      truthy (Some (JStr ''2024-01-15'')) \<and>
      map_of bookingBody ''appointmentTime'' = Some (JStr ''10:00'') \<and>
      truthy (Some (JStr ''10:00'')) \<and>
      accepts clinicEnv (Query ''Appointments'' [JStr ''d1'', JStr ''2024-01-15'', JStr ''10:00'']) \<and>
      \<not> hasConflict [] (JStr ''d1'') (JStr ''2024-01-15'') (JStr ''10:00'') None \<and>
      accepts clinicEnv (Put ''Appointments'' (newAppointment clinicEnv bookingBody))"
    by (simp add: bookingBody_def clinicEnv_def hasConflict_def conflictItems_def)
  have unused: "ddbGet [] (uuidv4 clinicEnv) = None"
    by (simp add: ddbGet_def)
  note inst = conjunct2[OF create_validates_and_persists
      [where body = bookingBody and d = "JStr ''d1''" and dt = "JStr ''2024-01-15''"
         and t = "JStr ''10:00''" and env = clinicEnv and tbl = "[]"]]
  from mp[OF inst ok] obtain a where
    all: "createAppointment clinicEnv bookingBody [] = (Inr a, ddbPut [] a) \<and>
         map_of a ''appointmentId'' = Some (JStr (uuidv4 clinicEnv)) \<and>
         map_of a ''status'' = Some (JStr ''scheduled'') \<and>
         map_of a ''createdAt'' = Some (JStr (now clinicEnv 0)) \<and>
         map_of a ''updatedAt'' = Some (JStr (now clinicEnv 1)) \<and>
         (\<forall>k \<in> {''patientId'', ''doctorId'', ''appointmentDate'', ''appointmentTime'',
                  ''appointmentType'', ''notes''}. map_of a k = map_of bookingBody k) \<and>
         ddbGet (ddbPut [] a) (uuidv4 clinicEnv) = Some a \<and>
         (ddbGet [] (uuidv4 clinicEnv) = None \<longrightarrow> ddbPut [] a = [] @ [a])"
    by (rule exE)
  from all have run: "createAppointment clinicEnv bookingBody [] = (Inr a, ddbPut [] a)"
    and key: "map_of a ''appointmentId'' = Some (JStr (uuidv4 clinicEnv))"
    and st: "map_of a ''status'' = Some (JStr ''scheduled'')"
    and fields: "map_of a ''notes'' = map_of bookingBody ''notes''"
    and added: "ddbGet [] (uuidv4 clinicEnv) = None \<longrightarrow> ddbPut [] a = [] @ [a]"
    by simp_all
  have "createAppointment clinicEnv bookingBody [] = (Inr a, [a])"
    using run added unused by simp
  moreover have "map_of a ''appointmentId'' = Some (JStr ''a1'')"
    using key by (simp add: clinicEnv_def)
  moreover have "map_of a ''notes'' = Some (JStr ''first visit'')"
    using fields by (simp add: bookingBody_def)
  ultimately show ?thesis
    using one clash st by blast
qed

section \<open>The status filter of the by-doctor query\<close>

lemma create_success:
  "createAppointment env body tbl = (Inr a, tbl') \<Longrightarrow>
   a = newAppointment env body \<and> tbl' = ddbPut tbl a"
  by (auto simp: createAppointment_def split: if_splits option.splits)

lemma ddbPut_items: "set (ddbPut tbl a) \<subseteq> insert a (set tbl)"
  by (auto simp: ddbPut_def)

lemma written_has_no_appointmentStatus:
  "written tbl \<Longrightarrow> \<forall>it \<in> set tbl. map_of it ''appointmentStatus'' = None"
proof (induction rule: written.induct)
  case nothing
  then show ?case by simp
next
  case (created tbl env body a tbl')
  from create_success[OF created.hyps(2)] have "set tbl' \<subseteq> insert (newAppointment env body) (set tbl)"
    using ddbPut_items by simp
  moreover have "map_of (newAppointment env body) ''appointmentStatus'' = None"
    by (simp add: newAppointment_attrs)
  ultimately show ?case
    using created.IH by auto
next
  case (cancelled tbl env ident body a tbl')
  have keep: "map_of (setAttrs (cancelSets env body) it) ''appointmentStatus'' =
              map_of it ''appointmentStatus''" for it
    by (rule map_of_setAttrs_other) (simp add: cancelSets_def)
  from cancel_table[of env ident body tbl] cancelled.hyps(2)
  have "tbl' = tbl \<or>
        tbl' = map (\<lambda>it. if map_of it ''appointmentId'' = Some (JStr ident)
                          then setAttrs (cancelSets env body) it else it) tbl \<or>
        tbl' = tbl @ [setAttrs (cancelSets env body) [(''appointmentId'', JStr ident)]]"
    by simp
  then show ?case
    using cancelled.IH keep by auto
next
  case (updated tbl updates env ident a tbl')
  have keep: "map_of (setAttrs (updateSets env updates) it) ''appointmentStatus'' =
              map_of it ''appointmentStatus''" for it
    using updated.hyps(2) by (intro map_of_setAttrs_other) (auto simp: updateSets_def)
  from update_success[OF updated.hyps(3)]
  have "tbl' = map (\<lambda>it. if map_of it ''appointmentId'' = Some (JStr ident)
                          then setAttrs (updateSets env updates) it else it) tbl"
    by blast
  then show ?case
    using updated.IH keep by auto
qed

text \<open>
  C10. In a table the engine has written by Create and Cancel (and by updates that do not
  name \<^verbatim>\<open>appointmentStatus\<close> themselves), no record has an attribute
  \<^verbatim>\<open>appointmentStatus\<close>; the by-doctor query with a status filter compares that attribute,
  so whenever the store answers it, the answer is empty, whatever status is asked for.
\<close>

theorem status_filter_finds_nothing:
  "written tbl \<longrightarrow>
     (\<forall>it \<in> set tbl. map_of it ''appointmentStatus'' = None) \<and>
     (status \<noteq> [] \<and>
      accepts env (Query ''Appointments'' (JStr doctorId # bound date @ bound (Some status))) \<longrightarrow>
        getDoctorAppointments env doctorId date (Some status) tbl = Inr [])"
proof
  assume w: "written tbl"
  have none: "\<forall>it \<in> set tbl. map_of it ''appointmentStatus'' = None"
    using w by (rule written_has_no_appointmentStatus)
  have "getDoctorAppointments env doctorId date (Some status) tbl = Inr []"
    if "status \<noteq> []"
      and "accepts env (Query ''Appointments'' (JStr doctorId # bound date @ bound (Some status)))"
    using that none by (simp add: getDoctorAppointments_def given_def filter_empty_conv)
  with none show "(\<forall>it \<in> set tbl. map_of it ''appointmentStatus'' = None) \<and>
     (status \<noteq> [] \<and>
      accepts env (Query ''Appointments'' (JStr doctorId # bound date @ bound (Some status))) \<longrightarrow>
        getDoctorAppointments env doctorId date (Some status) tbl = Inr [])"
    by blast
qed

theorem status_filter_finds_nothing_witness:
  "written cancelledTable \<and>
   getDoctorAppointments clinicEnv ''d1'' None None cancelledTable = Inr cancelledTable \<and>
   getDoctorAppointments clinicEnv ''d1'' None (Some ''cancelled'') cancelledTable = Inr [] \<and>
   getDoctorAppointments clinicEnv ''d1'' (Some ''2024-01-15'') (Some ''scheduled'') bookedTable =
     Inr []"
proof -
  have w1: "written bookedTable"
    using written.created[OF written.nothing create_booking] .
  have w2: "written cancelledTable"
    using written.cancelled[OF w1 cancel_booking] .
  have all: "getDoctorAppointments clinicEnv ''d1'' None None cancelledTable = Inr cancelledTable"
    by (simp add: getDoctorAppointments_def given_def bound_def clinicEnv_def cancelledTable_def)
  have q1: "''cancelled'' \<noteq> [] \<and>
      accepts clinicEnv (Query ''Appointments'' (JStr ''d1'' # bound None @ bound (Some ''cancelled'')))"
    by (simp add: clinicEnv_def)
  have q2: "''scheduled'' \<noteq> [] \<and>
      accepts clinicEnv
        (Query ''Appointments'' (JStr ''d1'' # bound (Some ''2024-01-15'') @ bound (Some ''scheduled'')))"
    by (simp add: clinicEnv_def)
  have r1: "getDoctorAppointments clinicEnv ''d1'' None (Some ''cancelled'') cancelledTable = Inr []"
    using status_filter_finds_nothing
      [where tbl = cancelledTable and status = "''cancelled''" and env = clinicEnv
         and doctorId = "''d1''" and date = None] w2 q1
    by blast
  have r2: "getDoctorAppointments clinicEnv ''d1'' (Some ''2024-01-15'') (Some ''scheduled'')
              bookedTable = Inr []"
    using status_filter_finds_nothing
      [where tbl = bookedTable and status = "''scheduled''" and env = clinicEnv
         and doctorId = "''d1''" and date = "Some ''2024-01-15''"] w1 q2
    by blast
  show ?thesis
    using w2 all r1 r2 by simp
qed

end
